theory Spec2Isabelle
  imports Complex_Main "HOL-Library.AList"
begin

section \<open>Python values shared by the modules\<close>

text \<open>
  Exceptions raised by the modelled functions. A function that can raise returns
  \<open>py_error + 'a\<close>, with \<open>Inl\<close> carrying the exception.
\<close>

datatype py_error = ValueError | KeyError | AttributeError | ZeroDivisionError

fun bind_err :: "py_error + 'a \<Rightarrow> ('a \<Rightarrow> py_error + 'b) \<Rightarrow> py_error + 'b" where
  "bind_err (Inl e) f = Inl e"
| "bind_err (Inr x) f = f x"

text \<open>
  A \<open>pd.Series\<close> of floats with unique string labels is the list of its
  (label, value) pairs in index order; a \<open>pd.Index\<close> is the list of its labels.
  Floats are modelled as reals: rounding, NaN and infinities are outside the model.
\<close>

type_synonym hex_id = string
type_synonym series = "(hex_id \<times> real) list"

definition series_get :: "series \<Rightarrow> hex_id \<Rightarrow> real \<Rightarrow> real" where
  "series_get s h d = (case map_of s h of None \<Rightarrow> d | Some v \<Rightarrow> v)"

definition reindex_fill0 :: "series \<Rightarrow> hex_id list \<Rightarrow> series" where
  "reindex_fill0 s hex_ids = map (\<lambda>h. (h, series_get s h 0)) hex_ids"

definition series_sum :: "series \<Rightarrow> real" where
  "series_sum s = sum_list (map snd s)"

definition series_const :: "real \<Rightarrow> hex_id list \<Rightarrow> series" where
  "series_const c hex_ids = map (\<lambda>h. (h, c)) hex_ids"

definition set_label :: "series \<Rightarrow> hex_id \<Rightarrow> real \<Rightarrow> series" where
  "set_label s h v = map (\<lambda>(k, x). if k = h then (k, v) else (k, x)) s"

definition loc_assign :: "series \<Rightarrow> (hex_id \<times> real) list \<Rightarrow> series" where
  "loc_assign out kvs = fold (\<lambda>(h, v) acc. set_label acc h v) kvs out"

section \<open>src/mass/layers.py\<close>

record MassLayer =
  name :: string
  raw :: series
  meta :: "(string \<times> string) list"

definition reindex_to_hexes :: "MassLayer \<Rightarrow> hex_id list \<Rightarrow> MassLayer" where
  "reindex_to_hexes l hex_ids =
     \<lparr>name = name l, raw = reindex_fill0 (raw l) hex_ids, meta = meta l\<rparr>"

section \<open>src/scenarios/scenario.py: mass edits\<close>

datatype MassEdit =
    MassEditBase string
  | RedistributeLayerToHexes string "hex_id list" string
  | RemoveLayerFromComposite string

section \<open>src/scenarios/apply\_mass\_edits.py\<close>

definition redistribute_series_to_targets ::
  "series \<Rightarrow> hex_id list \<Rightarrow> hex_id list \<Rightarrow> string \<Rightarrow> py_error + series" where
  "redistribute_series_to_targets s0 hex_ids target_hex_ids method =
     (let s = reindex_fill0 s0 hex_ids;
          total = series_sum s
      in if total = 0 then Inr (map (\<lambda>(h, v). (h, v * 0)) s)
         else
           let targets = filter (\<lambda>h. h \<in> set hex_ids) target_hex_ids in
           if length targets = 0 then Inl ValueError
           else
             let out = series_const 0 hex_ids in
             if method = ''equal'' then
               Inr (loc_assign out (map (\<lambda>h. (h, total / real (length targets))) targets))
             else if method = ''proportional_to_existing'' then
               let base = map (\<lambda>h. (h, max (series_get s h 0) 0)) targets;
                   denom = series_sum base
               in if denom \<le> 0 then
                    Inr (loc_assign out (map (\<lambda>h. (h, total / real (length targets))) targets))
                  else Inr (loc_assign out (map (\<lambda>(h, b). (h, b / denom * total)) base))
             else Inl ValueError)"

type_synonym layers = "(string \<times> MassLayer) list"
type_synonym weights = "(string \<times> real) list"

fun apply_mass_edit ::
  "hex_id list \<Rightarrow> layers \<times> weights \<Rightarrow> MassEdit \<Rightarrow> py_error + layers \<times> weights" where
  "apply_mass_edit hex_ids (new_layers, new_weights) (RedistributeLayerToHexes lname targets method) =
     (case map_of new_layers lname of
        None \<Rightarrow> Inl KeyError
      | Some layer \<Rightarrow>
          bind_err (redistribute_series_to_targets (raw layer) hex_ids targets method)
            (\<lambda>redistributed.
               Inr (AList.update lname
                      \<lparr>name = name layer, raw = redistributed, meta = meta layer\<rparr> new_layers,
                    new_weights)))"
| "apply_mass_edit hex_ids (new_layers, new_weights) (RemoveLayerFromComposite lname) =
     Inr (new_layers, AList.update lname 0 new_weights)"
| "apply_mass_edit hex_ids (new_layers, new_weights) (MassEditBase k) = Inl ValueError"

fun mass_edit_loop ::
  "hex_id list \<Rightarrow> layers \<times> weights \<Rightarrow> MassEdit list \<Rightarrow> py_error + layers \<times> weights" where
  "mass_edit_loop hex_ids st [] = Inr st"
| "mass_edit_loop hex_ids st (edit # rest) =
     bind_err (apply_mass_edit hex_ids st edit) (\<lambda>st'. mass_edit_loop hex_ids st' rest)"

definition apply_mass_edits ::
  "layers \<Rightarrow> weights \<Rightarrow> hex_id list \<Rightarrow> MassEdit list \<Rightarrow> py_error + layers \<times> weights" where
  "apply_mass_edits ls ws hex_ids mass_edits =
     mass_edit_loop hex_ids (map (\<lambda>(k, v). (k, reindex_to_hexes v hex_ids)) ls, ws) mass_edits"

section \<open>The network: a directed multigraph with edge data\<close>

text \<open>
  An \<open>nx.MultiDiGraph\<close>: nodes with coordinates and a list of edges \<open>(u, v, key)\<close>,
  each with its data dict. The numeric \<open>time_min\<close> is a field of its own (\<open>None\<close>
  when the key is absent or holds \<open>None\<close>); the classification attributes
  (\<open>mode\<close>, \<open>route_id\<close>, \<open>name\<close>, ...) are string-valued.
\<close>

type_synonym node = int

record edge =
  src :: node
  dst :: node
  ekey :: int
  time_min :: "real option"
  attrs :: "(string \<times> string) list"

record graph =
  nodes :: "(node \<times> real \<times> real) list"
  edges :: "edge list"

datatype attr_value = Num real | Str string

definition data_get :: "edge \<Rightarrow> string \<Rightarrow> attr_value option" where
  "data_get e k =
     (if k = ''time_min'' then map_option Num (time_min e)
      else map_option Str (map_of (attrs e) k))"

definition has_edge :: "graph \<Rightarrow> node \<Rightarrow> node \<Rightarrow> bool" where
  "has_edge G u v = list_ex (\<lambda>e. src e = u \<and> dst e = v) (edges G)"

definition has_edge_key :: "graph \<Rightarrow> node \<Rightarrow> node \<Rightarrow> int \<Rightarrow> bool" where
  "has_edge_key G u v k = list_ex (\<lambda>e. src e = u \<and> dst e = v \<and> ekey e = k) (edges G)"

section \<open>src/scenarios/scenario.py: network edits\<close>

datatype where_value = WScalar "attr_value option" | WColl "attr_value option list"

datatype NetworkEdit =
    NetworkEditBase string
  | CloseEdges "int list list"
  | SpeedFactorByAttribute "(string \<times> where_value) list" real
  | RemoveTransitLine string

section \<open>src/scenarios/apply\_network\_edits.py\<close>

fun edge_matches_where :: "edge \<Rightarrow> (string \<times> where_value) list \<Rightarrow> bool" where
  "edge_matches_where e [] = True"
| "edge_matches_where e ((k, WColl vs) # rest) =
     (if data_get e k \<notin> set vs then False else edge_matches_where e rest)"
| "edge_matches_where e ((k, WScalar v) # rest) =
     (if data_get e k \<noteq> v then False else edge_matches_where e rest)"

text \<open>One tuple of a \<open>CloseEdges\<close> edit: \<open>(u, v)\<close>, \<open>(u, v, k)\<close>, or any other arity.\<close>

fun close_edge :: "real \<Rightarrow> graph \<Rightarrow> int list \<Rightarrow> py_error + graph" where
  "close_edge close_time G [u, v] =
     (if has_edge G u v then
        Inr (G\<lparr>edges := map (\<lambda>e. if src e = u \<and> dst e = v
                                     then e\<lparr>time_min := Some close_time\<rparr> else e) (edges G)\<rparr>)
      else Inr G)"
| "close_edge close_time G [u, v, k] =
     (if has_edge_key G u v k then
        Inr (G\<lparr>edges := map (\<lambda>e. if src e = u \<and> dst e = v \<and> ekey e = k
                                     then e\<lparr>time_min := Some close_time\<rparr> else e) (edges G)\<rparr>)
      else Inr G)"
| "close_edge close_time G e = Inl ValueError"

fun close_edges_loop :: "real \<Rightarrow> graph \<Rightarrow> int list list \<Rightarrow> py_error + graph" where
  "close_edges_loop close_time G [] = Inr G"
| "close_edges_loop close_time G (e # es) =
     bind_err (close_edge close_time G e) (\<lambda>G'. close_edges_loop close_time G' es)"

definition str_attr :: "edge \<Rightarrow> string \<Rightarrow> string" where
  "str_attr e k = (case map_of (attrs e) k of None \<Rightarrow> ''None'' | Some s \<Rightarrow> s)"

fun apply_network_edit :: "real \<Rightarrow> graph \<Rightarrow> NetworkEdit \<Rightarrow> py_error + graph" where
  "apply_network_edit close_time G (CloseEdges es) = close_edges_loop close_time G es"
| "apply_network_edit close_time G (SpeedFactorByAttribute wh factor) =
     Inr (G\<lparr>edges := map (\<lambda>e. if edge_matches_where e wh
                                  then (case time_min e of None \<Rightarrow> e
                                        | Some t \<Rightarrow> e\<lparr>time_min := Some (t * factor)\<rparr>)
                                  else e) (edges G)\<rparr>)"
| "apply_network_edit close_time G (RemoveTransitLine rid) =
     Inr (G\<lparr>edges := map (\<lambda>e. if data_get e ''mode'' = Some (Str ''transit'')
                                     \<and> str_attr e ''route_id'' = rid
                                  then e\<lparr>time_min := Some close_time\<rparr> else e) (edges G)\<rparr>)"
| "apply_network_edit close_time G (NetworkEditBase k) = Inl ValueError"

fun network_edit_loop :: "real \<Rightarrow> graph \<Rightarrow> NetworkEdit list \<Rightarrow> py_error + graph" where
  "network_edit_loop close_time G [] = Inr G"
| "network_edit_loop close_time G (edit # rest) =
     bind_err (apply_network_edit close_time G edit) (\<lambda>G'. network_edit_loop close_time G' rest)"

definition apply_network_edits :: "graph \<Rightarrow> NetworkEdit list \<Rightarrow> real \<Rightarrow> py_error + graph" where
  "apply_network_edits G_base network_edits close_time =
     network_edit_loop close_time G_base network_edits"

section \<open>src/network/topo\_weighted.py\<close>

definition series_min :: "series \<Rightarrow> real" where
  "series_min s = Min (set (map snd s))"

definition series_max :: "series \<Rightarrow> real" where
  "series_max s = Max (set (map snd s))"

text \<open>On an empty series \<open>min\<close> and \<open>max\<close> are NaN and \<open>mx > mn\<close> is false.\<close>

definition normalize_01 :: "series \<Rightarrow> series" where
  "normalize_01 s =
     (if s \<noteq> [] \<and> series_max s > series_min s then
        map (\<lambda>(h, x). (h, (x - series_min s) / (series_max s - series_min s))) s
      else map (\<lambda>(h, x). (h, 0)) s)"

definition topo_at :: "series \<Rightarrow> (node \<times> hex_id) list \<Rightarrow> node \<Rightarrow> real" where
  "topo_at topo01 node_to_hex u =
     (case map_of node_to_hex u of None \<Rightarrow> 0 | Some hu \<Rightarrow> series_get topo01 hu 0)"

definition build_topo_weighted_graph ::
  "graph \<Rightarrow> series \<Rightarrow> (node \<times> hex_id) list \<Rightarrow> real \<Rightarrow> graph" where
  "build_topo_weighted_graph G_base topo_hex node_to_hex gamma =
     (let topo01 = normalize_01 topo_hex in
      G_base\<lparr>edges :=
        map (\<lambda>e. case time_min e of
                    None \<Rightarrow> e
                  | Some base_t \<Rightarrow>
                      let mu = topo_at topo01 node_to_hex (src e);
                          mv = topo_at topo01 node_to_hex (dst e);
                          penalty = 1 + gamma * 0.5 * (mu + mv)
                      in e\<lparr>time_min := Some (base_t * penalty)\<rparr>) (edges G_base)\<rparr>)"

section \<open>src/network/dijkstra.py\<close>

text \<open>
  \<open>nx.single_source_dijkstra_path_length(G, source, cutoff, weight)\<close> is a library
  function and a parameter \<open>sssp\<close> here: it raises, or returns the dict of distances.
  The dict \<open>hex_to_node\<close> is the list of its items; \<open>node_to_hexes\<close> groups the
  hexes by node, in the order the nodes first appear.
\<close>

type_synonym travel_times = "(hex_id \<times> (hex_id \<times> real) list) list"

definition setdefault_append ::
  "(node \<times> hex_id list) list \<Rightarrow> node \<Rightarrow> hex_id \<Rightarrow> (node \<times> hex_id list) list" where
  "setdefault_append acc n h =
     (case map_of acc n of
        None \<Rightarrow> acc @ [(n, [h])]
      | Some hs \<Rightarrow> AList.update n (hs @ [h]) acc)"

definition node_to_hexes :: "(hex_id \<times> node) list \<Rightarrow> (node \<times> hex_id list) list" where
  "node_to_hexes hex_to_node = fold (\<lambda>(h, n) acc. setdefault_append acc n h) hex_to_node []"

definition unique_nodes :: "(hex_id \<times> node) list \<Rightarrow> node list" where
  "unique_nodes hex_to_node = map fst (node_to_hexes hex_to_node)"

text \<open>The hexes that \<open>hex_to_node\<close> maps to a node, in the order of the dict.\<close>

definition hexes_of :: "(hex_id \<times> node) list \<Rightarrow> node \<Rightarrow> hex_id list" where
  "hexes_of xs n = map fst (filter (\<lambda>(h, n'). n' = n) xs)"

definition od_row :: "(hex_id \<times> node) list \<Rightarrow> (node \<rightharpoonup> real) \<Rightarrow> (hex_id \<times> real) list" where
  "od_row hex_to_node lengths =
     List.map_filter (\<lambda>(dest_hex, dest_node). map_option (\<lambda>t. (dest_hex, t)) (lengths dest_node))
       hex_to_node"

definition compute_hex_travel_times ::
  "('g \<Rightarrow> node \<Rightarrow> real \<Rightarrow> string \<Rightarrow> py_error + (node \<rightharpoonup> real)) \<Rightarrow>
   'g \<Rightarrow> (hex_id \<times> node) list \<Rightarrow> real \<Rightarrow> string \<Rightarrow> travel_times" where
  "compute_hex_travel_times sssp G hex_to_node max_time weight =
     fold (\<lambda>source_node tt.
             case sssp G source_node max_time weight of
               Inl ex \<Rightarrow> tt
             | Inr lengths \<Rightarrow>
                 fold (\<lambda>origin_hex acc. AList.update origin_hex (od_row hex_to_node lengths) acc)
                   (case map_of (node_to_hexes hex_to_node) source_node of
                      None \<Rightarrow> [] | Some hs \<Rightarrow> hs) tt)
       (unique_nodes hex_to_node) []"

section \<open>src/indices/hansen.py\<close>

text \<open>
  Series that come from outside (income, population, labour, hex areas, the urban
  interface) may hold NaN: their values are \<open>real option\<close>, \<open>None\<close> standing for a
  value that is missing or not finite.
\<close>

type_synonym nan_series = "(hex_id \<times> real option) list"

definition nan_get :: "nan_series \<Rightarrow> hex_id \<Rightarrow> real option" where
  "nan_get s h = (case map_of s h of None \<Rightarrow> None | Some v \<Rightarrow> v)"

definition nan_reindex :: "nan_series \<Rightarrow> hex_id list \<Rightarrow> nan_series" where
  "nan_reindex s hex_ids = map (\<lambda>h. (h, nan_get s h)) hex_ids"

definition nan_fill0 :: "nan_series \<Rightarrow> series" where
  "nan_fill0 s = map (\<lambda>(h, v). (h, case v of None \<Rightarrow> 0 | Some x \<Rightarrow> x)) s"

definition dict_get :: "(string \<times> real) list \<Rightarrow> string \<Rightarrow> real \<Rightarrow> real" where
  "dict_get d k dflt = (case map_of d k of None \<Rightarrow> dflt | Some v \<Rightarrow> v)"

definition DEFAULT_MEDIAN_HOURLY_WAGE :: real where
  "DEFAULT_MEDIAN_HOURLY_WAGE = 25"

definition income_cost_penalty_minutes :: "real option \<Rightarrow> real \<Rightarrow> real \<Rightarrow> py_error + real" where
  "income_cost_penalty_minutes annual_income mode_cost fallback_hourly_wage =
     (if mode_cost \<le> 0 then Inr 0
      else
        let hourly_wage =
              (case annual_income of
                 None \<Rightarrow> fallback_hourly_wage
               | Some a \<Rightarrow> if a \<le> 0 then fallback_hourly_wage else max (a / 2080) 7.25)
        in if hourly_wage = 0 then Inl ZeroDivisionError
           else Inr ((mode_cost / hourly_wage) * 60))"

definition origin_penalty ::
  "nan_series option \<Rightarrow> real \<Rightarrow> real \<Rightarrow> hex_id \<Rightarrow> py_error + real" where
  "origin_penalty income mode_cost fallback_hourly_wage origin_hex =
     (case income of
        None \<Rightarrow> Inr 0
      | Some inc \<Rightarrow>
          if mode_cost > 0 then
            income_cost_penalty_minutes (nan_get inc origin_hex) mode_cost fallback_hourly_wage
          else Inr 0)"

definition row_total :: "series \<Rightarrow> real \<Rightarrow> real \<Rightarrow> (hex_id \<times> real) list \<Rightarrow> real" where
  "row_total dest_mass beta penalty tt =
     fold (\<lambda>(dest_hex, t) total.
             let m = series_get dest_mass dest_hex 0 in
             if m \<le> 0 then total
             else total + m * exp (- beta * (t + penalty))) tt 0"

fun hansen_loop ::
  "travel_times \<Rightarrow> series \<Rightarrow> real \<Rightarrow> nan_series option \<Rightarrow> real \<Rightarrow> real \<Rightarrow>
   hex_id list \<Rightarrow> series \<Rightarrow> py_error + series" where
  "hansen_loop travel_times dest_mass beta income mode_cost fb [] out = Inr out"
| "hansen_loop travel_times dest_mass beta income mode_cost fb (origin_hex # rest) out =
     (case map_of travel_times origin_hex of
        None \<Rightarrow> hansen_loop travel_times dest_mass beta income mode_cost fb rest out
      | Some tt \<Rightarrow>
          if tt = [] then hansen_loop travel_times dest_mass beta income mode_cost fb rest out
          else
            bind_err (origin_penalty income mode_cost fb origin_hex)
              (\<lambda>penalty.
                 hansen_loop travel_times dest_mass beta income mode_cost fb rest
                   (set_label out origin_hex (row_total dest_mass beta penalty tt))))"

definition hansen_accessibility ::
  "travel_times \<Rightarrow> series \<Rightarrow> real \<Rightarrow> nan_series option \<Rightarrow> real \<Rightarrow> real \<Rightarrow> py_error + series" where
  "hansen_accessibility travel_times dest_mass beta income mode_cost fallback_hourly_wage =
     (let hex_ids = map fst dest_mass in
      hansen_loop travel_times dest_mass beta income mode_cost fallback_hourly_wage
        hex_ids (series_const 0 hex_ids))"

definition normalize_minmax :: "series \<Rightarrow> real \<Rightarrow> series" where
  "normalize_minmax s scale =
     (if s \<noteq> [] \<and> series_max s > series_min s then
        map (\<lambda>(h, x). (h, (x - series_min s) / (series_max s - series_min s) * scale)) s
      else map (\<lambda>(h, x). (h, scale / 2)) s)"

definition normalize_div_max :: "series \<Rightarrow> series" where
  "normalize_div_max s =
     (if s \<noteq> [] \<and> series_max s > 0 then map (\<lambda>(h, x). (h, x / series_max s)) s
      else map (\<lambda>(h, x). (h, 0)) s)"

section \<open>src/indices/pci.py\<close>

text \<open>
  \<open>Series.rank(pct=True)\<close>: the average rank of each value (ties averaged) divided by
  the number of values. Arithmetic between two series aligns them on their labels.
\<close>

definition rank_pct :: "series \<Rightarrow> series" where
  "rank_pct s =
     map (\<lambda>(h, x).
            (h, (real (length (filter (\<lambda>y. y < x) (map snd s)))
                 + (real (length (filter (\<lambda>y. y = x) (map snd s))) + 1) / 2)
                / real (length s))) s"

definition series_zip :: "(real \<Rightarrow> real \<Rightarrow> real) \<Rightarrow> series \<Rightarrow> series \<Rightarrow> series" where
  "series_zip f a b = map (\<lambda>(h, x). (h, f x (series_get b h 0))) a"

definition compute_active_street_score :: "hex_id list \<Rightarrow> layers \<Rightarrow> string list \<Rightarrow> series" where
  "compute_active_street_score hex_ids lyrs active_layers =
     rank_pct
       (fold (\<lambda>k active.
                case map_of lyrs k of
                  None \<Rightarrow> active
                | Some l \<Rightarrow> series_zip (+) active (reindex_fill0 (raw l) hex_ids))
          active_layers (series_const 0 hex_ids))"

definition compute_park_coverage :: "nan_series \<Rightarrow> series \<Rightarrow> hex_id list \<Rightarrow> series" where
  "compute_park_coverage hex_area_m2 parks_area_m2 hex_ids =
     map (\<lambda>h. (h, case nan_get hex_area_m2 h of
                     None \<Rightarrow> 0
                   | Some a \<Rightarrow> if a = 0 then 0 else series_get parks_area_m2 h 0 / a)) hex_ids"

definition compute_pci ::
  "travel_times \<Rightarrow> series \<Rightarrow> layers \<Rightarrow> (string \<times> real) list \<Rightarrow> nan_series option \<Rightarrow>
   real \<Rightarrow> real \<Rightarrow> bool \<Rightarrow> real \<Rightarrow> nan_series option \<Rightarrow> py_error + nan_series" where
  "compute_pci travel_times topo_mass lyrs bts income mcost alambda mask_enabled mask_threshold
     hex_area_m2 =
     (let hex_ids = map fst topo_mass;
          beta = dict_get bts ''pci'' 0.08
      in bind_err
           (hansen_accessibility travel_times topo_mass beta income mcost
              DEFAULT_MEDIAN_HOURLY_WAGE)
           (\<lambda>A.
              let A_n = normalize_minmax A 100;
                  active_score =
                    compute_active_street_score hex_ids lyrs [''food_retail'', ''community''];
                  pci_raw = map (\<lambda>(h, a). (h, a * (1 + alambda * series_get active_score h 0))) A_n;
                  pci = normalize_minmax pci_raw 100
              in if mask_enabled then
                   (case map_of lyrs ''parks'' of
                      None \<Rightarrow> Inr (map (\<lambda>(h, x). (h, Some x)) pci)
                    | Some pl \<Rightarrow>
                        let parks = reindex_fill0 (raw pl) hex_ids in
                        bind_err
                          (if parks \<noteq> [] \<and> series_max parks \<le> 1.5 then Inr parks
                           else (case hex_area_m2 of
                                   None \<Rightarrow> Inl ValueError
                                 | Some ha \<Rightarrow> Inr (compute_park_coverage ha parks hex_ids)))
                          (\<lambda>coverage.
                             Inr (map (\<lambda>(h, x).
                                         (h, if series_get coverage h 0 > mask_threshold
                                             then None else Some x)) pci)))
                 else Inr (map (\<lambda>(h, x). (h, Some x)) pci)))"

section \<open>src/indices/bci.py\<close>

record bci_out =
  A_market :: series
  A_labour :: series
  BCI :: series

definition compute_bci_masses ::
  "nan_series \<Rightarrow> nan_series \<Rightarrow> nan_series \<Rightarrow> hex_id list \<Rightarrow> series \<times> series" where
  "compute_bci_masses population income labour hex_ids =
     (let P = nan_fill0 (nan_reindex population hex_ids);
          Y = nan_fill0 (nan_reindex income hex_ids);
          L = nan_fill0 (nan_reindex labour hex_ids)
      in (series_zip (*) P Y, L))"

definition compute_bci ::
  "travel_times \<Rightarrow> nan_series \<Rightarrow> nan_series \<Rightarrow> nan_series \<Rightarrow> (string \<times> real) list \<Rightarrow>
   (string \<times> real) list option \<Rightarrow> string \<Rightarrow> nan_series option \<Rightarrow> real \<Rightarrow> py_error + bci_out" where
  "compute_bci travel_times population income labour bts wts combine interface ilambda =
     (let hex_ids = map fst population;
          masses = compute_bci_masses population income labour hex_ids;
          market_mass = fst masses;
          labour_mass = snd masses;
          beta_market = dict_get bts ''market'' 0.08;
          beta_labour = dict_get bts ''labour'' 0.08
      in bind_err
           (hansen_accessibility travel_times market_mass beta_market None 0
              DEFAULT_MEDIAN_HOURLY_WAGE)
           (\<lambda>Am.
              bind_err
                (hansen_accessibility travel_times labour_mass beta_labour None 0
                   DEFAULT_MEDIAN_HOURLY_WAGE)
                (\<lambda>Al.
                   bind_err
                     (if combine = ''weight_free'' then
                        Inr (series_zip (+) (normalize_div_max Am) (normalize_div_max Al))
                      else if combine = ''weighted_sum'' then
                        let w = (case wts of None \<Rightarrow> [] | Some d \<Rightarrow> d);
                            w_m = dict_get w ''market'' 1;
                            w_l = dict_get w ''labour'' 1
                        in Inr (series_zip (+) (map (\<lambda>(h, x). (h, w_m * x)) Am)
                                  (map (\<lambda>(h, x). (h, w_l * x)) Al))
                      else Inl ValueError)
                     (\<lambda>bci_raw.
                        let bci_raw' =
                              (case interface of
                                 None \<Rightarrow> bci_raw
                               | Some iface \<Rightarrow>
                                   if ilambda \<noteq> 0 then
                                     let iface01 = rank_pct (nan_fill0 (nan_reindex iface hex_ids))
                                     in map (\<lambda>(h, x).
                                               (h, x * (1 + ilambda * series_get iface01 h 0)))
                                          bci_raw
                                   else bci_raw)
                        in Inr \<lparr>A_market = Am, A_labour = Al,
                                BCI = normalize_minmax bci_raw' 100\<rparr>))))"

section \<open>src/mass/topography.py\<close>

text \<open>
  The dict \<open>topo_rules\<close>: an absent key is \<open>None\<close> (\<open>False\<close> for \<open>log1p\<close>).
  \<open>normalize_01\<close> of this module is the function of the same name and body above.
\<close>

record topo_rules =
  tr_normalize :: "string option"
  tr_clip_min :: "real option"
  tr_clip_max :: "real option"
  tr_log1p :: bool

definition normalize_zscore :: "series \<Rightarrow> series" where
  "normalize_zscore s =
     (let mu = series_sum s / real (length s);
          sd = sqrt (sum_list (map (\<lambda>(h, x). (x - mu)\<^sup>2) s) / real (length s))
      in if s \<noteq> [] \<and> sd > 0 then map (\<lambda>(h, x). (h, (x - mu) / sd)) s
         else map (\<lambda>(h, x). (h, 0)) s)"

record TopographyResult =
  topo :: series
  components :: "(string \<times> series) list"
  topo_meta :: "topo_rules option"

definition build_composite_topography ::
  "layers \<Rightarrow> weights \<Rightarrow> hex_id list \<Rightarrow> topo_rules option \<Rightarrow> TopographyResult" where
  "build_composite_topography lyrs wts hex_ids rules =
     (let normalize_mode = (case rules of None \<Rightarrow> ''none''
                            | Some r \<Rightarrow> (case tr_normalize r of None \<Rightarrow> ''none'' | Some m \<Rightarrow> m));
          clip_min = (case rules of None \<Rightarrow> None | Some r \<Rightarrow> tr_clip_min r);
          clip_max = (case rules of None \<Rightarrow> None | Some r \<Rightarrow> tr_clip_max r);
          log1p = (case rules of None \<Rightarrow> False | Some r \<Rightarrow> tr_log1p r);
          contrib = (\<lambda>(nm, layer).
                       let w = dict_get wts nm 1;
                           s = raw (reindex_to_hexes layer hex_ids);
                           s' = (if log1p then map (\<lambda>(h, x). (h, ln (1 + max x 0))) s else s)
                       in map (\<lambda>(h, x). (h, w * x)) s');
          comps = fold (\<lambda>(nm, layer) acc. AList.update nm (contrib (nm, layer)) acc) lyrs [];
          topo0 = fold (\<lambda>(nm, layer) acc. series_zip (+) acc (contrib (nm, layer))) lyrs
                    (series_const 0 hex_ids);
          topo1 = (case clip_min of None \<Rightarrow> topo0
                   | Some lo \<Rightarrow> map (\<lambda>(h, x). (h, max x lo)) topo0);
          topo2 = (case clip_max of None \<Rightarrow> topo1
                   | Some hi \<Rightarrow> map (\<lambda>(h, x). (h, min x hi)) topo1);
          topo3 = (if normalize_mode = ''01'' then normalize_01 topo2
                   else if normalize_mode = ''zscore'' then normalize_zscore topo2
                   else topo2)
      in \<lparr>topo = topo3, components = comps, topo_meta = rules\<rparr>)"

definition build_bci_masses ::
  "nan_series \<Rightarrow> nan_series \<Rightarrow> nan_series \<Rightarrow> hex_id list \<Rightarrow> series \<times> series" where
  "build_bci_masses population income labour hex_ids =
     (let P = nan_fill0 (nan_reindex population hex_ids);
          Y = nan_fill0 (nan_reindex income hex_ids);
          L = nan_fill0 (nan_reindex labour hex_ids)
      in (series_zip (*) P Y, L))"

section \<open>src/scenarios/artifacts.py\<close>

text \<open>
  The payload of a key is a JSON value. \<open>stable_hash\<close> is the MD5 digest of its JSON
  text with sorted keys; the two library calls together are the parameter \<open>digest\<close>.
  The store keeps one pickle file per artifact name and key: one map per name.
\<close>

datatype json =
    JNull | JBool bool | JNum real | JStr string | JList "json list" | JDict "(string \<times> json) list"

definition stable_hash :: "(json \<Rightarrow> string) \<Rightarrow> json \<Rightarrow> string" where
  "stable_hash digest obj = digest obj"

record ArtifactStore =
  st_layers :: "string \<rightharpoonup> layers"
  st_weights :: "string \<rightharpoonup> weights"
  st_topo_pci :: "string \<rightharpoonup> series"
  st_bci_masses :: "string \<rightharpoonup> series \<times> series"
  st_G_s :: "string \<rightharpoonup> graph"
  st_travel_times :: "string \<rightharpoonup> travel_times"
  st_pci :: "string \<rightharpoonup> nan_series"
  st_bci_out :: "string \<rightharpoonup> bci_out"

section \<open>src/scenarios/scenario.py: the scenario\<close>

text \<open>
  The frozen dataclass \<open>Scenario\<close> declares exactly these twelve fields (\<open>name\<close> is
  \<open>sc_name\<close> here).
\<close>

record Scenario =
  sc_name :: string
  description :: string
  mass_edits :: "MassEdit list"
  network_edits :: "NetworkEdit list"
  weights :: "(string \<times> real) list"
  betas :: "(string \<times> real) list"
  gamma :: real
  active_lambda :: real
  mode_cost :: real
  park_mask_enabled :: bool
  park_mask_threshold :: real
  interface_lambda :: real

text \<open>
  \<open>scenario.topo_rules\<close>: the dataclass declares no field of that name, neither as an
  instance attribute nor as a class attribute, so the attribute access raises
  \<open>AttributeError\<close> on every value of the type.
\<close>

definition scenario_topo_rules :: "Scenario \<Rightarrow> py_error + topo_rules option" where
  "scenario_topo_rules scenario = Inl AttributeError"

section \<open>src/network/build\_scenario\_graph.py\<close>

definition build_scenario_graph ::
  "graph \<Rightarrow> series \<Rightarrow> (node \<times> hex_id) list \<Rightarrow> Scenario \<Rightarrow> real \<Rightarrow> py_error + graph" where
  "build_scenario_graph G_base topo_hex node_to_hex scenario close_time =
     bind_err (apply_network_edits G_base (network_edits scenario) close_time)
       (\<lambda>G_edit. Inr (build_topo_weighted_graph G_edit topo_hex node_to_hex (gamma scenario)))"

section \<open>src/scenarios/runner.py\<close>

text \<open>\<open>e.__dict__\<close> of an edit, and the other values the key payloads hold, as JSON.\<close>

fun mass_edit_dict :: "MassEdit \<Rightarrow> json" where
  "mass_edit_dict (MassEditBase k) = JDict [(''kind'', JStr k)]"
| "mass_edit_dict (RedistributeLayerToHexes l ts m) =
     JDict [(''kind'', JStr ''redistribute_layer_to_hexes''), (''layer'', JStr l),
            (''target_hex_ids'', JList (map JStr ts)), (''method'', JStr m)]"
| "mass_edit_dict (RemoveLayerFromComposite l) =
     JDict [(''kind'', JStr ''remove_layer_from_composite''), (''layer'', JStr l)]"

fun attr_json :: "attr_value option \<Rightarrow> json" where
  "attr_json None = JNull"
| "attr_json (Some (Num x)) = JNum x"
| "attr_json (Some (Str s)) = JStr s"

fun where_json :: "where_value \<Rightarrow> json" where
  "where_json (WScalar v) = attr_json v"
| "where_json (WColl vs) = JList (map attr_json vs)"

fun network_edit_dict :: "NetworkEdit \<Rightarrow> json" where
  "network_edit_dict (NetworkEditBase k) = JDict [(''kind'', JStr k)]"
| "network_edit_dict (CloseEdges es) =
     JDict [(''kind'', JStr ''close_edges''),
            (''edges'', JList (map (\<lambda>e. JList (map (\<lambda>i. JNum (of_int i)) e)) es))]"
| "network_edit_dict (SpeedFactorByAttribute wh f) =
     JDict [(''kind'', JStr ''speed_factor_by_attribute''),
            (''where'', JDict (map (\<lambda>(k, v). (k, where_json v)) wh)), (''factor'', JNum f)]"
| "network_edit_dict (RemoveTransitLine r) =
     JDict [(''kind'', JStr ''remove_transit_line''), (''route_id'', JStr r)]"

definition float_dict_json :: "(string \<times> real) list \<Rightarrow> json" where
  "float_dict_json d = JDict (map (\<lambda>(k, v). (k, JNum v)) d)"

definition opt_num_json :: "real option \<Rightarrow> json" where
  "opt_num_json v = (case v of None \<Rightarrow> JNull | Some x \<Rightarrow> JNum x)"

definition topo_rules_json :: "topo_rules option \<Rightarrow> json" where
  "topo_rules_json rules =
     (case rules of
        None \<Rightarrow> JNull
      | Some r \<Rightarrow>
          JDict [(''normalize'', (case tr_normalize r of None \<Rightarrow> JNull | Some m \<Rightarrow> JStr m)),
                 (''clip_min'', opt_num_json (tr_clip_min r)),
                 (''clip_max'', opt_num_json (tr_clip_max r)),
                 (''log1p'', JBool (tr_log1p r))])"

definition mass_key_payload :: "Scenario \<Rightarrow> topo_rules option \<Rightarrow> json" where
  "mass_key_payload scenario rules =
     JDict [(''mass_edits'', JList (map mass_edit_dict (mass_edits scenario))),
            (''weights'', float_dict_json (weights scenario)),
            (''topo_rules'', topo_rules_json rules)]"

definition mass_key :: "(json \<Rightarrow> string) \<Rightarrow> Scenario \<Rightarrow> py_error + string" where
  "mass_key digest scenario =
     bind_err (scenario_topo_rules scenario)
       (\<lambda>rules. Inr (stable_hash digest (mass_key_payload scenario rules)))"

definition graph_key_payload :: "Scenario \<Rightarrow> string \<Rightarrow> json" where
  "graph_key_payload scenario topo_key =
     JDict [(''network_edits'', JList (map network_edit_dict (network_edits scenario))),
            (''gamma'', JNum (gamma scenario)),
            (''topo_key'', JStr topo_key)]"

definition graph_key :: "(json \<Rightarrow> string) \<Rightarrow> Scenario \<Rightarrow> string \<Rightarrow> string" where
  "graph_key digest scenario topo_key = stable_hash digest (graph_key_payload scenario topo_key)"

definition travel_times_key :: "(json \<Rightarrow> string) \<Rightarrow> string \<Rightarrow> real \<Rightarrow> string" where
  "travel_times_key digest gkey max_time =
     stable_hash digest (JDict [(''graph_key'', JStr gkey), (''max_time'', JNum max_time)])"

definition topo_key_payload :: "string \<Rightarrow> json" where
  "topo_key_payload mkey = JDict [(''mass_key'', JStr mkey), (''kind'', JStr ''topo_pci'')]"

text \<open>
  \<open>base_assets\<close>: the dict the runner is built with. Its constructor refuses a dict that
  lacks a required key, so the nine required entries are fields; the two optional ones
  (\<open>hex_area_m2\<close>, \<open>urban_interface\<close>, read with \<open>.get\<close>) are options.
\<close>

record base_assets =
  b_hex_ids :: "hex_id list"
  b_layers :: layers
  b_weights :: weights
  b_G_base :: graph
  b_node_to_hex :: "(node \<times> hex_id) list"
  b_hex_to_node :: "(hex_id \<times> node) list"
  b_population :: nan_series
  b_income :: nan_series
  b_labour :: nan_series
  b_hex_area_m2 :: "nan_series option"
  b_urban_interface :: "nan_series option"

record run_result =
  r_scenario :: Scenario
  r_layers :: layers
  r_weights :: weights
  r_topo_pci :: series
  r_market_mass :: series
  r_labour_mass :: series
  r_G_s :: graph
  r_travel_times :: travel_times
  r_pci :: nan_series
  r_bci :: series
  r_A_market :: series
  r_A_labour :: series

definition dict_merge :: "(string \<times> real) list \<Rightarrow> (string \<times> real) list \<Rightarrow> (string \<times> real) list" where
  "dict_merge a b = fold (\<lambda>(k, v) acc. AList.update k v acc) b a"

text \<open>
  \<open>ScenarioRunner.run\<close>, with the store passed in and returned. The five stages follow
  the source in order; each \<open>bind_err\<close> is a call that may raise.
\<close>

definition run ::
  "(json \<Rightarrow> string) \<Rightarrow> (graph \<Rightarrow> node \<Rightarrow> real \<Rightarrow> string \<Rightarrow> py_error + (node \<rightharpoonup> real)) \<Rightarrow>
   ArtifactStore \<Rightarrow> base_assets \<Rightarrow> Scenario \<Rightarrow> real \<Rightarrow> string set \<Rightarrow>
   py_error + ArtifactStore \<times> run_result" where
  "run digest sssp store base scenario max_time recompute =
     (let hex_ids = b_hex_ids base;
          base_layers = b_layers base;
          base_weights = b_weights base
      in
      bind_err (mass_key digest scenario) (\<lambda>mkey.
        let layers_key = stable_hash digest
              (JDict [(''mass_key'', JStr mkey), (''kind'', JStr ''layers_applied'')]);
            lyrs0 = (if ''mass'' \<in> recompute then None else st_layers store layers_key);
            wts0 = (if ''mass'' \<in> recompute then None else st_weights store layers_key)
        in
        bind_err
          (case (lyrs0, wts0) of
             (Some l, Some w) \<Rightarrow> Inr (l, w, store)
           | _ \<Rightarrow>
               bind_err
                 (apply_mass_edits base_layers (dict_merge base_weights (weights scenario))
                    hex_ids (mass_edits scenario))
                 (\<lambda>(l, w). Inr (l, w, store\<lparr>st_layers := (st_layers store)(layers_key \<mapsto> l),
                                             st_weights := (st_weights store)(layers_key \<mapsto> w)\<rparr>)))
          (\<lambda>(lyrs, wts, store1).
        let topo_key = stable_hash digest (topo_key_payload mkey);
            topo0 = (if ''mass'' \<in> recompute then None else st_topo_pci store1 topo_key)
        in
        bind_err
          (case topo0 of
             Some tp \<Rightarrow> Inr (tp, store1)
           | None \<Rightarrow>
               bind_err (scenario_topo_rules scenario) (\<lambda>rules.
                 let topo_res = build_composite_topography lyrs wts hex_ids rules
                 in Inr (topo topo_res,
                         store1\<lparr>st_topo_pci := (st_topo_pci store1)(topo_key \<mapsto> topo topo_res)\<rparr>)))
          (\<lambda>(topo_pci, store2).
        let pop = nan_reindex (b_population base) hex_ids;
            inc = nan_reindex (b_income base) hex_ids;
            lab = nan_reindex (b_labour base) hex_ids;
            bci_mass_key = stable_hash digest
              (JDict [(''kind'', JStr ''bci_masses''), (''source'', JStr ''base_assets'')]);
            masses_store =
              (case st_bci_masses store2 bci_mass_key of
                 None \<Rightarrow>
                   (let m = build_bci_masses pop inc lab hex_ids
                    in (m, store2\<lparr>st_bci_masses := (st_bci_masses store2)(bci_mass_key \<mapsto> m)\<rparr>))
               | Some m \<Rightarrow> (m, store2));
            market_mass = fst (fst masses_store);
            labour_mass = snd (fst masses_store);
            store3 = snd masses_store;
            gkey = graph_key digest scenario topo_key;
            G0 = (if ''graph'' \<in> recompute then None else st_G_s store3 gkey)
        in
        bind_err
          (case G0 of
             Some g \<Rightarrow> Inr (g, store3)
           | None \<Rightarrow>
               bind_err
                 (build_scenario_graph (b_G_base base) topo_pci (b_node_to_hex base) scenario
                    1000000000)
                 (\<lambda>g. Inr (g, store3\<lparr>st_G_s := (st_G_s store3)(gkey \<mapsto> g)\<rparr>)))
          (\<lambda>(G_s, store4).
        let tt_key = travel_times_key digest gkey max_time;
            tt0 = (if ''travel_times'' \<in> recompute then None else st_travel_times store4 tt_key);
            tt_store =
              (case tt0 of
                 Some x \<Rightarrow> (x, store4)
               | None \<Rightarrow>
                   (let x = compute_hex_travel_times sssp G_s (b_hex_to_node base) max_time
                              ''time_min''
                    in (x, store4\<lparr>st_travel_times := (st_travel_times store4)(tt_key \<mapsto> x)\<rparr>)));
            tts = fst tt_store;
            store5 = snd tt_store;
            pci_key = stable_hash digest
              (JDict [(''tt_key'', JStr tt_key), (''topo_key'', JStr topo_key),
                      (''betas'', float_dict_json (betas scenario)),
                      (''active_lambda'', JNum (active_lambda scenario)),
                      (''mode_cost'', JNum (mode_cost scenario)),
                      (''park_mask_enabled'', JBool (park_mask_enabled scenario)),
                      (''park_mask_threshold'', JNum (park_mask_threshold scenario))]);
            pci0 = (if ''pci'' \<in> recompute then None else st_pci store5 pci_key)
        in
        bind_err
          (case pci0 of
             Some p \<Rightarrow> Inr (p, store5)
           | None \<Rightarrow>
               bind_err
                 (compute_pci tts topo_pci lyrs (betas scenario) (Some inc) (mode_cost scenario)
                    (active_lambda scenario) (park_mask_enabled scenario)
                    (park_mask_threshold scenario) (b_hex_area_m2 base))
                 (\<lambda>p. Inr (p, store5\<lparr>st_pci := (st_pci store5)(pci_key \<mapsto> p)\<rparr>)))
          (\<lambda>(pci, store6).
        let bci_key = stable_hash digest
              (JDict [(''tt_key'', JStr tt_key), (''betas'', float_dict_json (betas scenario)),
                      (''combine'', JStr ''weight_free''),
                      (''interface_lambda'', JNum (interface_lambda scenario))]);
            b0 = (if ''bci'' \<in> recompute then None else st_bci_out store6 bci_key)
        in
        bind_err
          (case b0 of
             Some b \<Rightarrow> Inr (b, store6)
           | None \<Rightarrow>
               bind_err
                 (compute_bci tts pop inc lab (betas scenario) None ''weight_free''
                    (b_urban_interface base) (interface_lambda scenario))
                 (\<lambda>b. Inr (b, store6\<lparr>st_bci_out := (st_bci_out store6)(bci_key \<mapsto> b)\<rparr>)))
          (\<lambda>(bo, store7).
             Inr (store7,
                  \<lparr>r_scenario = scenario, r_layers = lyrs, r_weights = wts,
                   r_topo_pci = topo_pci, r_market_mass = market_mass,
                   r_labour_mass = labour_mass, r_G_s = G_s, r_travel_times = tts,
                   r_pci = pci, r_bci = BCI bo, r_A_market = A_market bo,
                   r_A_labour = A_labour bo\<rparr>))))))))"

lemma bind_err_Inr_iff: "bind_err m f = Inr y \<longleftrightarrow> (\<exists>x. m = Inr x \<and> f x = Inr y)"
  by (cases m) auto

section \<open>The orchestrator and the scenario type\<close>

lemma mass_key_raises: "mass_key digest scenario = Inl AttributeError"
  by (simp add: mass_key_def scenario_topo_rules_def)

text \<open>
  Claim C2. For every value of the \<open>Scenario\<close> dataclass, \<open>ScenarioRunner.run\<close> raises
  \<open>AttributeError\<close>: its first step derives the mass key, which reads
  \<open>scenario.topo_rules\<close>, an attribute the type does not have. This holds for every
  store, every base-assets dict, every cutoff and every set of forced stages, so no run
  completes the mass stage.
\<close>

theorem run_raises_attribute_error:
  "run digest sssp store base scenario max_time recompute = Inl AttributeError"
  unfolding run_def by (simp only: Let_def mass_key_raises bind_err.simps)

section \<open>Network edits\<close>

lemma close_edge_error: "close_edge ct G e = Inl err \<Longrightarrow> err = ValueError"
  by (induction ct G e rule: close_edge.induct) (auto split: if_splits)

lemma close_edge_bad_arity:
  "length e \<noteq> 2 \<Longrightarrow> length e \<noteq> 3 \<Longrightarrow> close_edge ct G e = Inl ValueError"
  by (induction ct G e rule: close_edge.induct) auto

lemma close_edges_loop_error: "close_edges_loop ct G es = Inl err \<Longrightarrow> err = ValueError"
proof (induction es arbitrary: G)
  case Nil
  then show ?case by simp
next
  case (Cons e es)
  then show ?case
    by (cases "close_edge ct G e") (auto dest: close_edge_error)
qed

lemma close_edges_loop_bad_arity:
  "e \<in> set es \<Longrightarrow> length e \<noteq> 2 \<Longrightarrow> length e \<noteq> 3 \<Longrightarrow>
   close_edges_loop ct G es = Inl ValueError"
proof (induction es arbitrary: G)
  case Nil
  then show ?case by simp
next
  case (Cons a es)
  show ?case
  proof (cases "close_edge ct G a")
    case (Inl err)
    then show ?thesis using close_edge_error[OF Inl] by simp
  next
    case (Inr G')
    with Cons.prems have "a \<noteq> e" by (auto simp: close_edge_bad_arity)
    with Cons.prems have "e \<in> set es" by simp
    from Cons.IH[OF this Cons.prems(2,3)] Inr show ?thesis by simp
  qed
qed

lemma apply_network_edit_error: "apply_network_edit ct G ed = Inl err \<Longrightarrow> err = ValueError"
  by (cases ed) (auto dest: close_edges_loop_error)

lemma network_edit_loop_bad_arity:
  "CloseEdges es \<in> set edits \<Longrightarrow> e \<in> set es \<Longrightarrow> length e \<noteq> 2 \<Longrightarrow> length e \<noteq> 3 \<Longrightarrow>
   network_edit_loop ct G edits = Inl ValueError"
proof (induction edits arbitrary: G)
  case Nil
  then show ?case by simp
next
  case (Cons ed edits)
  show ?case
  proof (cases "apply_network_edit ct G ed")
    case (Inl err)
    then show ?thesis using apply_network_edit_error[OF Inl] by simp
  next
    case (Inr G')
    have "ed \<noteq> CloseEdges es"
      using Inr close_edges_loop_bad_arity[OF Cons.prems(2,3,4)] by auto
    with Cons.prems have "CloseEdges es \<in> set edits" by simp
    from Cons.IH[OF this Cons.prems(2,3,4)] Inr show ?thesis by simp
  qed
qed

text \<open>
  Claim C6, as stated, fails: a \<open>CloseEdges\<close> edit that names an edge the network does
  not have raises nothing. Closing \<open>(7, 8)\<close> in a network whose only edge is
  \<open>(1, 2, 0)\<close> returns that network unchanged.
\<close>

theorem close_absent_edge_counterexample:
  "apply_network_edits
     \<lparr>nodes = [], edges = [\<lparr>src = 1, dst = 2, ekey = 0, time_min = Some 3, attrs = []\<rparr>]\<rparr>
     [CloseEdges [[7, 8]]] 1000000000
   = Inr \<lparr>nodes = [], edges = [\<lparr>src = 1, dst = 2, ekey = 0, time_min = Some 3, attrs = []\<rparr>]\<rparr>"
  by (simp add: apply_network_edits_def has_edge_def)

text \<open>
  Claim C6, amended. \<open>apply_network_edits\<close> raises \<open>ValueError\<close> (the error the spec
  calls \<open>InvalidEditError\<close>) whenever some \<open>CloseEdges\<close> edit of the list holds an edge
  tuple whose arity is neither 2 nor 3, wherever the edit stands in the list. A tuple
  \<open>(u, v)\<close> or \<open>(u, v, k)\<close> naming an edge that is not in the network raises nothing:
  the guard \<open>has_edge\<close> skips it and the network is returned as it was.
\<close>

theorem close_edges_arity_error:
  "(CloseEdges es \<in> set edits \<and> e \<in> set es \<and> length e \<noteq> 2 \<and> length e \<noteq> 3 \<longrightarrow>
      apply_network_edits G edits close_time = Inl ValueError)
   \<and> (\<not> has_edge G u v \<longrightarrow> apply_network_edits G [CloseEdges [[u, v]]] close_time = Inr G)
   \<and> (\<not> has_edge_key G u v k \<longrightarrow>
        apply_network_edits G [CloseEdges [[u, v, k]]] close_time = Inr G)"
  by (auto simp: apply_network_edits_def network_edit_loop_bad_arity)

theorem close_edges_arity_error_witness:
  "apply_network_edits \<lparr>nodes = [], edges = []\<rparr>
     [RemoveTransitLine ''N'', CloseEdges [[1, 2], [4]]] 5 = Inl ValueError
   \<and> apply_network_edits \<lparr>nodes = [], edges = []\<rparr> [CloseEdges [[1, 2]]] 5
     = Inr \<lparr>nodes = [], edges = []\<rparr>
   \<and> apply_network_edits \<lparr>nodes = [], edges = []\<rparr> [CloseEdges [[1, 2, 0]]] 5
     = Inr \<lparr>nodes = [], edges = []\<rparr>"
  using close_edges_arity_error [of "[[1, 2], [4]]"
      "[RemoveTransitLine ''N'', CloseEdges [[1, 2], [4]]]" "[4]"
      "\<lparr>nodes = [], edges = []\<rparr>" 5 1 2 0]
  by (simp add: has_edge_def has_edge_key_def)

section \<open>Empty edit lists\<close>

text \<open>
  Claim C10. With no mass edits, \<open>apply_mass_edits\<close> returns every input layer under its
  key, in order, with its name and metadata, its values reindexed to \<open>hex_ids\<close> (a hex
  the layer lacks gets 0), and the weights as given. With no network edits,
  \<open>apply_network_edits\<close> returns a network equal to the base network.
\<close>

theorem empty_edit_lists_are_noops:
  "apply_mass_edits ls ws hex_ids [] =
     Inr (map (\<lambda>(k, l). (k, \<lparr>name = name l,
                               raw = map (\<lambda>h. (h, case map_of (raw l) h of
                                                    None \<Rightarrow> 0 | Some v \<Rightarrow> v)) hex_ids,
                               meta = meta l\<rparr>)) ls, ws)
   \<and> apply_network_edits G [] close_time = Inr G"
  by (simp add: apply_mass_edits_def apply_network_edits_def reindex_to_hexes_def
      reindex_fill0_def series_get_def)

section \<open>Mass edits\<close>

lemma set_label_map:
  "set_label (map (\<lambda>(h, x). (h, g h x)) out) k v = map (\<lambda>(h, x). (h, if h = k then v else g h x)) out"
  by (induction out) (auto simp: set_label_def)

lemma loc_assign_eq:
  "loc_assign out kvs =
     map (\<lambda>(h, x). (h, case map_of (rev kvs) h of None \<Rightarrow> x | Some v \<Rightarrow> v)) out"
proof (induction kvs arbitrary: out)
  case Nil
  then show ?case by (simp add: loc_assign_def)
next
  case (Cons kv kvs)
  obtain k v where kv: "kv = (k, v)" by (cases kv)
  have "loc_assign out (kv # kvs) = loc_assign (set_label out k v) kvs"
    by (simp add: loc_assign_def kv)
  also have "\<dots> = map (\<lambda>(h, x). (h, case map_of (rev kvs) h of None \<Rightarrow> x | Some v \<Rightarrow> v))
                     (set_label out k v)"
    by (rule Cons.IH)
  also have "\<dots> = map (\<lambda>(h, x). (h, case map_of (rev (kv # kvs)) h of None \<Rightarrow> x | Some v \<Rightarrow> v)) out"
    by (auto simp: set_label_def kv map_add_def split: option.splits)
  finally show ?case .
qed

lemma map_of_rev_const:
  "map_of (rev (map (\<lambda>h. (h, f h)) ts)) h = (if h \<in> set ts then Some (f h) else None)"
  by (induction ts) (auto simp: map_add_def split: option.splits)

lemma loc_assign_targets:
  "loc_assign (series_const 0 hex_ids) (map (\<lambda>h. (h, f h)) ts) =
     map (\<lambda>h. (h, if h \<in> set ts then f h else 0)) hex_ids"
  by (simp add: loc_assign_eq series_const_def map_of_rev_const o_def)

lemma sum_list_targets:
  assumes "distinct hex_ids" "distinct ts" "set ts \<subseteq> set hex_ids"
  shows "sum_list (map (\<lambda>h. if h \<in> set ts then f h else (0::real)) hex_ids) = sum_list (map f ts)"
proof -
  have "sum_list (map (\<lambda>h. if h \<in> set ts then f h else 0) hex_ids)
          = (\<Sum>h\<in>set hex_ids. if h \<in> set ts then f h else 0)"
    using assms(1) by (simp add: sum_list_distinct_conv_sum_set)
  also have "\<dots> = (\<Sum>h\<in>set ts. f h)"
    using assms(3) by (simp add: sum.inter_restrict[symmetric] Int_absorb1)
  also have "\<dots> = sum_list (map f ts)"
    using assms(2) by (simp add: sum_list_distinct_conv_sum_set)
  finally show ?thesis .
qed

text \<open>
  When no hex is named twice, neither in \<open>hex_ids\<close> nor in \<open>target_hex_ids\<close>, an
  accepted redistribution conserves the total, keeps the index, and leaves 0 at every
  hex that is not a target.
\<close>

lemma redistribute_conserves_mass:
  assumes "distinct hex_ids" and "distinct target_hex_ids"
    and "redistribute_series_to_targets s hex_ids target_hex_ids method = Inr out"
  shows "series_sum out = series_sum (reindex_fill0 s hex_ids)"
    and "map fst out = hex_ids"
    and "h \<in> set hex_ids \<Longrightarrow> h \<notin> set target_hex_ids \<Longrightarrow> map_of out h = Some 0"
proof -
  define s' where "s' = reindex_fill0 s hex_ids"
  define total where "total = series_sum s'"
  define ts where "ts = filter (\<lambda>h. h \<in> set hex_ids) target_hex_ids"
  define share where "share = total / real (length ts)"
  define base where "base = (\<lambda>h. max (series_get s' h 0) 0)"
  define denom where "denom = sum_list (map base ts)"
  have ts: "distinct ts" "set ts \<subseteq> set hex_ids" "set ts \<subseteq> set target_hex_ids"
    using assms(2) by (auto simp: ts_def)
  have denom_eq: "series_sum (map (\<lambda>h. (h, max (series_get s' h 0) 0)) ts) = denom"
    by (simp add: series_sum_def denom_def base_def o_def)
  have prop_map: "map (\<lambda>(h, b). (h, b / denom * total)) (map (\<lambda>h. (h, max (series_get s' h 0) 0)) ts)
      = map (\<lambda>h. (h, base h / denom * total)) ts"
    by (simp add: base_def)
  consider (zero) "total = 0" "out = map (\<lambda>(h, v). (h, v * 0)) s'"
    | (equal) "total \<noteq> 0" "ts \<noteq> []" "out = map (\<lambda>h. (h, if h \<in> set ts then share else 0)) hex_ids"
    | (proportional) "total \<noteq> 0" "ts \<noteq> []" "denom > 0"
        "out = map (\<lambda>h. (h, if h \<in> set ts then base h / denom * total else 0)) hex_ids"
    using assms(3)
    unfolding redistribute_series_to_targets_def Let_def s'_def[symmetric] total_def[symmetric]
      ts_def[symmetric] denom_eq prop_map
    by (auto simp: loc_assign_targets share_def split: if_splits)
  then have "series_sum out = total \<and> map fst out = hex_ids
      \<and> (h \<in> set hex_ids \<longrightarrow> h \<notin> set target_hex_ids \<longrightarrow> map_of out h = Some 0)"
  proof cases
    case zero
    have "map_of (map (\<lambda>h. (h, 0::real)) hex_ids) h = Some 0" if "h \<in> set hex_ids"
      using that by (induction hex_ids) auto
    then show ?thesis using zero
      by (auto simp: series_sum_def s'_def reindex_fill0_def o_def)
  next
    case equal
    have "sum_list (map (\<lambda>h. if h \<in> set ts then share else 0) hex_ids) = sum_list (map (\<lambda>h. share) ts)"
      using assms(1) ts(1,2) by (rule sum_list_targets)
    also have "\<dots> = total"
      using equal(2) by (simp add: sum_list_triv share_def)
    finally have "series_sum out = total"
      by (simp add: equal(3) series_sum_def o_def)
    moreover have "map_of out h = Some 0" if "h \<in> set hex_ids" "h \<notin> set target_hex_ids"
    proof -
      have "h \<notin> set ts" using that ts by auto
      then show ?thesis using that(1) unfolding equal(3)
        by (induction hex_ids) auto
    qed
    ultimately show ?thesis by (simp add: equal(3) o_def)
  next
    case proportional
    have "sum_list (map (\<lambda>h. if h \<in> set ts then base h / denom * total else 0) hex_ids)
        = sum_list (map (\<lambda>h. base h / denom * total) ts)"
      using assms(1) ts(1,2) by (rule sum_list_targets)
    also have "\<dots> = sum_list (map (\<lambda>h. base h * (total / denom)) ts)"
      by simp
    also have "\<dots> = sum_list (map base ts) * (total / denom)"
      by (rule sum_list_mult_const)
    also have "\<dots> = total" using proportional(3) by (simp add: denom_def)
    finally have "series_sum out = total"
      by (simp add: proportional(4) series_sum_def o_def)
    moreover have "map_of out h = Some 0" if "h \<in> set hex_ids" "h \<notin> set target_hex_ids"
    proof -
      have "h \<notin> set ts" using that ts by auto
      then show ?thesis using that(1) unfolding proportional(4)
        by (induction hex_ids) auto
    qed
    ultimately show ?thesis by (simp add: proportional(4) o_def)
  qed
  then show "series_sum out = series_sum (reindex_fill0 s hex_ids)"
    and "map fst out = hex_ids"
    and "h \<in> set hex_ids \<Longrightarrow> h \<notin> set target_hex_ids \<Longrightarrow> map_of out h = Some 0"
    by (simp_all add: total_def s'_def)
qed


text \<open>
  Claim C3 at a target list that names a hex twice. With two hexes of mass 1 each and
  \<open>target_hex_ids = ["A", "A"]\<close>, method \<open>equal\<close>, the edit is accepted: the share is
  \<open>total / len(targets) = 2 / 2\<close>, written once to hex A. The output sums to 1, the
  reindexed input to 2: half of the mass is lost.
\<close>

theorem redistribute_duplicate_targets_loses_mass:
  "redistribute_series_to_targets [(''A'', 1), (''B'', 1)] [''A'', ''B''] [''A'', ''A''] ''equal''
     = Inr [(''A'', 1), (''B'', 0)]
   \<and> series_sum [(''A'', 1), (''B'', 0)] = 1
   \<and> series_sum (reindex_fill0 [(''A'', 1), (''B'', 1)] [''A'', ''B'']) = 2"
  by (simp add: redistribute_series_to_targets_def reindex_fill0_def series_get_def series_sum_def
      series_const_def loc_assign_def set_label_def)

lemma mass_edit_loop_append:
  "mass_edit_loop hex_ids st (xs @ ys) =
     bind_err (mass_edit_loop hex_ids st xs) (\<lambda>st'. mass_edit_loop hex_ids st' ys)"
proof (induction xs arbitrary: st)
  case Nil
  then show ?case by simp
next
  case (Cons x xs)
  then show ?case by (cases "apply_mass_edit hex_ids st x") simp_all
qed

lemma redistribute_no_target:
  assumes "set target_hex_ids \<inter> set hex_ids = {}"
  shows "series_sum (reindex_fill0 s hex_ids) \<noteq> 0 \<Longrightarrow>
           redistribute_series_to_targets s hex_ids target_hex_ids method = Inl ValueError"
    and "series_sum (reindex_fill0 s hex_ids) = 0 \<Longrightarrow>
           redistribute_series_to_targets s hex_ids target_hex_ids method
             = Inr (map (\<lambda>h. (h, 0)) hex_ids)"
proof -
  have "filter (\<lambda>h. h \<in> set hex_ids) target_hex_ids = []"
    using assms by (auto simp: filter_empty_conv)
  then show "series_sum (reindex_fill0 s hex_ids) \<noteq> 0 \<Longrightarrow>
           redistribute_series_to_targets s hex_ids target_hex_ids method = Inl ValueError"
    by (simp add: redistribute_series_to_targets_def Let_def)
  show "series_sum (reindex_fill0 s hex_ids) = 0 \<Longrightarrow>
           redistribute_series_to_targets s hex_ids target_hex_ids method
             = Inr (map (\<lambda>h. (h, 0)) hex_ids)"
    by (simp add: redistribute_series_to_targets_def Let_def reindex_fill0_def o_def)
qed

text \<open>
  Claim C5, amended. Let the edits before a \<open>RedistributeLayerToHexes\<close> edit succeed,
  let the edit's layer exist, and let none of its \<open>target_hex_ids\<close> be in \<open>hex_ids\<close>.
  If the layer's total over \<open>hex_ids\<close> is not 0, \<open>apply_mass_edits\<close> fails with
  \<open>ValueError\<close> (the error the spec calls \<open>InvalidEditError\<close>), whatever edits follow.
  If the total is 0, the edit is accepted and the layer becomes all-zero: the total is
  tested before the targets are.
\<close>

theorem no_valid_target_raises:
  assumes "apply_mass_edits ls ws hex_ids pre = Inr (ls', ws')"
    and "map_of ls' lname = Some layer"
    and "set target_hex_ids \<inter> set hex_ids = {}"
  shows "(series_sum (reindex_fill0 (raw layer) hex_ids) \<noteq> 0 \<longrightarrow>
            apply_mass_edits ls ws hex_ids
              (pre @ RedistributeLayerToHexes lname target_hex_ids method # post) = Inl ValueError)
       \<and> (series_sum (reindex_fill0 (raw layer) hex_ids) = 0 \<longrightarrow>
            apply_mass_edits ls ws hex_ids
              (pre @ [RedistributeLayerToHexes lname target_hex_ids method])
              = Inr (AList.update lname
                       \<lparr>name = name layer, raw = map (\<lambda>h. (h, 0)) hex_ids, meta = meta layer\<rparr> ls',
                     ws'))"
  using assms(1,2) redistribute_no_target[OF assms(3), of "raw layer" "method"]
  by (auto simp: apply_mass_edits_def mass_edit_loop_append)

text \<open>
  Claim C5, as stated, fails when the layer's total is 0: the edit below has no target
  in \<open>hex_ids\<close>, and \<open>apply_mass_edits\<close> returns the (all-zero) layer without error.
\<close>

theorem zero_total_no_target_counterexample:
  "apply_mass_edits [(''retail'', \<lparr>name = ''retail'', raw = [(''A'', 0)], meta = []\<rparr>)] []
     [''A''] [RedistributeLayerToHexes ''retail'' [''Z''] ''equal'']
   = Inr ([(''retail'', \<lparr>name = ''retail'', raw = [(''A'', 0)], meta = []\<rparr>)], [])"
  by (simp add: apply_mass_edits_def reindex_to_hexes_def redistribute_series_to_targets_def
      reindex_fill0_def series_get_def series_sum_def)

theorem no_valid_target_raises_witness:
  "apply_mass_edits [(''retail'', \<lparr>name = ''retail'', raw = [(''A'', 2)], meta = []\<rparr>)] []
     [''A''] [RemoveLayerFromComposite ''parks'', RedistributeLayerToHexes ''retail'' [''Z''] ''equal'']
     = Inl ValueError"
  using no_valid_target_raises [of "[(''retail'', \<lparr>name = ''retail'', raw = [(''A'', 2)], meta = []\<rparr>)]" "[]"
      "[''A'']" "[RemoveLayerFromComposite ''parks'']"
      "[(''retail'', \<lparr>name = ''retail'', raw = [(''A'', 2)], meta = []\<rparr>)]" "[(''parks'', 0)]"
      "''retail''" "\<lparr>name = ''retail'', raw = [(''A'', 2)], meta = []\<rparr>" "[''Z'']" "''equal''" "[]"]
  by (simp add: apply_mass_edits_def reindex_to_hexes_def reindex_fill0_def series_get_def
      series_sum_def)

section \<open>Hansen accessibility\<close>

lemma fold_row_total:
  "fold (\<lambda>(dest_hex, t) total.
             let m = series_get dm dest_hex 0 in
             if m \<le> 0 then total
             else total + m * exp (- beta * (t + p))) tt acc
   = acc + (\<Sum>(j, t)\<leftarrow>tt. max (series_get dm j 0) 0 * exp (- beta * (t + p)))"
  by (induction tt arbitrary: acc) (auto simp: Let_def max_def)

lemma row_total_sum:
  "row_total dm beta p tt = (\<Sum>(j, t)\<leftarrow>tt. max (series_get dm j 0) 0 * exp (- beta * (t + p)))"
  by (simp add: row_total_def fold_row_total)

lemma origin_penalty_ok:
  assumes "fb \<noteq> 0"
  shows "\<exists>p. origin_penalty inc mc fb i = Inr p"
proof -
  have "max (a / 2080) (7.25::real) \<noteq> 0" for a by (simp add: max_def)
  then show ?thesis using assms
    by (auto simp: origin_penalty_def income_cost_penalty_minutes_def Let_def
        split: option.splits)
qed

lemma map_of_set_label:
  "map_of (set_label out h v) i = (if i = h \<and> i \<in> fst ` set out then Some v else map_of out i)"
  by (induction out) (force simp: set_label_def)+

lemma fst_set_label: "map fst (set_label out h v) = map fst out"
  by (induction out) (auto simp: set_label_def)

lemma hansen_loop_result:
  assumes "fb \<noteq> 0"
  shows "\<exists>out'. hansen_loop tts dm beta inc mc fb xs out = Inr out' \<and> map fst out' = map fst out
      \<and> (\<forall>i row. i \<in> set xs \<longrightarrow> i \<in> fst ` set out \<longrightarrow> map_of tts i = Some row \<longrightarrow>
            (\<exists>p. (row \<noteq> [] \<longrightarrow> origin_penalty inc mc fb i = Inr p)
                 \<and> (if row = [] then map_of out' i = map_of out i
                    else map_of out' i = Some (row_total dm beta p row))))
      \<and> (\<forall>i. i \<notin> set xs \<longrightarrow> map_of out' i = map_of out i)"
proof (induction xs arbitrary: out)
  case Nil
  then show ?case by simp
next
  case (Cons x xs)
  show ?case
  proof (cases "map_of tts x")
    case None
    from Cons.IH[of out] obtain out' where o: "hansen_loop tts dm beta inc mc fb xs out = Inr out'"
      "map fst out' = map fst out"
      "\<forall>i row. i \<in> set xs \<longrightarrow> i \<in> fst ` set out \<longrightarrow> map_of tts i = Some row \<longrightarrow>
            (\<exists>p. (row \<noteq> [] \<longrightarrow> origin_penalty inc mc fb i = Inr p)
                 \<and> (if row = [] then map_of out' i = map_of out i
                    else map_of out' i = Some (row_total dm beta p row)))"
      "\<forall>i. i \<notin> set xs \<longrightarrow> map_of out' i = map_of out i" by blast
    show ?thesis using None o by auto
  next
    case (Some row)
    show ?thesis
    proof (cases "row = []")
      case True
      from Cons.IH[of out] obtain out' where o: "hansen_loop tts dm beta inc mc fb xs out = Inr out'"
        "map fst out' = map fst out"
        "\<forall>i row. i \<in> set xs \<longrightarrow> i \<in> fst ` set out \<longrightarrow> map_of tts i = Some row \<longrightarrow>
            (\<exists>p. (row \<noteq> [] \<longrightarrow> origin_penalty inc mc fb i = Inr p)
                 \<and> (if row = [] then map_of out' i = map_of out i
                    else map_of out' i = Some (row_total dm beta p row)))"
        "\<forall>i. i \<notin> set xs \<longrightarrow> map_of out' i = map_of out i" by blast
      have "x \<in> set xs \<or> x \<notin> set xs" by simp
      then show ?thesis using Some True o
        by (auto simp: split: if_splits)
    next
      case False
      obtain p where p: "origin_penalty inc mc fb x = Inr p"
        using origin_penalty_ok[OF assms] by blast
      define out1 where "out1 = set_label out x (row_total dm beta p row)"
      from Cons.IH[of out1] obtain out' where o: "hansen_loop tts dm beta inc mc fb xs out1 = Inr out'"
        "map fst out' = map fst out1"
        "\<forall>i row. i \<in> set xs \<longrightarrow> i \<in> fst ` set out1 \<longrightarrow> map_of tts i = Some row \<longrightarrow>
            (\<exists>p. (row \<noteq> [] \<longrightarrow> origin_penalty inc mc fb i = Inr p)
                 \<and> (if row = [] then map_of out' i = map_of out1 i
                    else map_of out' i = Some (row_total dm beta p row)))"
        "\<forall>i. i \<notin> set xs \<longrightarrow> map_of out' i = map_of out1 i" by blast
      have keys: "map fst out1 = map fst out" by (simp add: out1_def fst_set_label)
      then have keys': "fst ` set out1 = fst ` set out" by (metis list.set_map)
      have run: "hansen_loop tts dm beta inc mc fb (x # xs) out = Inr out'"
        using Some False p o(1) by (simp add: out1_def)
      have a: "\<exists>p. (row' \<noteq> [] \<longrightarrow> origin_penalty inc mc fb i = Inr p)
                 \<and> (if row' = [] then map_of out' i = map_of out i
                    else map_of out' i = Some (row_total dm beta p row'))"
        if "i \<in> set (x # xs)" "i \<in> fst ` set out" "map_of tts i = Some row'" for i row'
      proof (cases "i \<in> set xs")
        case True
        with o(3) that keys' obtain q where q: "row' \<noteq> [] \<longrightarrow> origin_penalty inc mc fb i = Inr q"
          "if row' = [] then map_of out' i = map_of out1 i
                    else map_of out' i = Some (row_total dm beta q row')" by blast
        show ?thesis
        proof (cases "row' = []")
          case True
          then have "i \<noteq> x" using that(3) Some False by auto
          then show ?thesis using q True by (auto simp: out1_def map_of_set_label)
        next
          case False
          then show ?thesis using q by auto
        qed
      next
        case False
        then have ix: "i = x" using that(1) by simp
        then have "row' = row" using that(3) Some by simp
        moreover have "map_of out' i = Some (row_total dm beta p row)"
          using o(4) False ix that(2) by (simp add: out1_def map_of_set_label)
        ultimately show ?thesis using p ix \<open>row \<noteq> []\<close> by auto
      qed
      have b: "map_of out' i = map_of out i" if "i \<notin> set (x # xs)" for i
        using that o(4) by (simp add: out1_def map_of_set_label)
      show ?thesis using run o(2) keys a b by auto
    qed
  qed
qed


lemma map_of_series_const: "map_of (series_const c hs) i = (if i \<in> set hs then Some c else None)"
  by (induction hs) (auto simp: series_const_def)

text \<open>
  Claim C4, amended. Let the fallback wage be nonzero (it is 25 unless the caller passes
  another). For every origin hex \<open>i\<close> of the index of \<open>dest_mass\<close> that has a row in
  the travel-time table, \<open>hansen_accessibility\<close> returns, at \<open>i\<close>, the sum over the
  destinations \<open>j\<close> of that row of \<open>max(mass_j, 0) * exp(-beta * (t_ij + penalty_i))\<close>:
  a destination whose mass is negative is skipped like one whose mass is 0, and a
  destination absent from the row, or from \<open>dest_mass\<close>, contributes nothing. In the
  example of three hexes with times A-A 0, A-B 5, A-C 10 (symmetric, B-C any \<open>d\<close>),
  market mass 100 at A only and beta 0.1, the result is 100 at A and
  \<open>100 * exp(-0.5)\<close> at B.
\<close>

theorem hansen_accessibility_sum:
  "(fb \<noteq> 0 \<and> i \<in> fst ` set dm \<and> map_of tts i = Some row \<longrightarrow>
      (\<exists>out p. hansen_accessibility tts dm beta inc mc fb = Inr out
         \<and> (row \<noteq> [] \<longrightarrow> origin_penalty inc mc fb i = Inr p)
         \<and> map_of out i
             = Some (\<Sum>(j, t)\<leftarrow>row. max (series_get dm j 0) 0 * exp (- beta * (t + p)))))
   \<and> hansen_accessibility
        [(''A'', [(''A'', 0), (''B'', 5), (''C'', 10)]),
         (''B'', [(''A'', 5), (''B'', 0), (''C'', d)]),
         (''C'', [(''A'', 10), (''B'', d), (''C'', 0)])]
        [(''A'', 100), (''B'', 0), (''C'', 0)] 0.1 None 0 25
      = Inr [(''A'', 100), (''B'', 100 * exp (- (1 / 2))), (''C'', 100 * exp (- 1))]"
proof (intro conjI impI)
  assume h: "fb \<noteq> 0 \<and> i \<in> fst ` set dm \<and> map_of tts i = Some row"
  define hs where "hs = map fst dm"
  from hansen_loop_result[of fb tts dm beta inc mc hs "series_const 0 hs"] h
  obtain out' where o: "hansen_loop tts dm beta inc mc fb hs (series_const 0 hs) = Inr out'"
    "\<forall>i row. i \<in> set hs \<longrightarrow> i \<in> fst ` set (series_const 0 hs) \<longrightarrow> map_of tts i = Some row \<longrightarrow>
            (\<exists>p. (row \<noteq> [] \<longrightarrow> origin_penalty inc mc fb i = Inr p)
                 \<and> (if row = [] then map_of out' i = map_of (series_const 0 hs) i
                    else map_of out' i = Some (row_total dm beta p row)))"
    by blast
  have i1: "i \<in> set hs" using h by (simp add: hs_def)
  have i2: "i \<in> fst ` set (series_const 0 hs)" using i1 by (force simp: series_const_def)
  from o(2) i1 i2 h obtain p where p: "row \<noteq> [] \<longrightarrow> origin_penalty inc mc fb i = Inr p"
    "if row = [] then map_of out' i = map_of (series_const 0 hs) i
                    else map_of out' i = Some (row_total dm beta p row)" by blast
  have "map_of out' i = Some (\<Sum>(j, t)\<leftarrow>row. max (series_get dm j 0) 0 * exp (- beta * (t + p)))"
    using p(2) i1 by (cases "row = []") (simp_all add: map_of_series_const row_total_sum)
  then show "\<exists>out p. hansen_accessibility tts dm beta inc mc fb = Inr out
         \<and> (row \<noteq> [] \<longrightarrow> origin_penalty inc mc fb i = Inr p)
         \<and> map_of out i
             = Some (\<Sum>(j, t)\<leftarrow>row. max (series_get dm j 0) 0 * exp (- beta * (t + p)))"
    using o(1) p(1) by (auto simp: hansen_accessibility_def hs_def Let_def)
next
  show "hansen_accessibility
        [(''A'', [(''A'', 0), (''B'', 5), (''C'', 10)]),
         (''B'', [(''A'', 5), (''B'', 0), (''C'', d)]),
         (''C'', [(''A'', 10), (''B'', d), (''C'', 0)])]
        [(''A'', 100), (''B'', 0), (''C'', 0)] 0.1 None 0 25
      = Inr [(''A'', 100), (''B'', 100 * exp (- (1 / 2))), (''C'', 100 * exp (- 1))]"
    by (simp add: hansen_accessibility_def origin_penalty_def row_total_def series_get_def
        series_const_def set_label_def)
qed

text \<open>
  Claim C4, as stated, fails for a negative mass: with one hex A of mass \<open>-1\<close> and the
  row A-A 0, the stated sum is \<open>-1 * exp 0 = -1\<close>, and the function returns 0.
\<close>

theorem hansen_negative_mass_counterexample:
  "hansen_accessibility [(''A'', [(''A'', 0)])] [(''A'', - 1)] 0.1 None 0 25 = Inr [(''A'', 0)]
   \<and> (\<Sum>(j, t)\<leftarrow>[(''A'', 0)]. series_get [(''A'', - 1)] j 0 * exp (- 0.1 * (t + 0))) = - 1"
  by (simp add: hansen_accessibility_def origin_penalty_def row_total_def series_get_def
        series_const_def set_label_def)

theorem hansen_accessibility_sum_witness:
  "\<exists>out p. hansen_accessibility [(''A'', [(''A'', 0), (''B'', 2)])] [(''A'', - 1), (''B'', 3)] 0.1
              (Some [(''A'', Some 41600)]) 2 25 = Inr out
     \<and> origin_penalty (Some [(''A'', Some 41600)]) 2 25 ''A'' = Inr p
     \<and> map_of out ''A'' = Some (3 * exp (- 0.1 * (2 + p)))"
  using hansen_accessibility_sum [of 25 "''A''" "[(''A'', - 1), (''B'', 3)]" "[(''A'', [(''A'', 0), (''B'', 2)])]"
      "[(''A'', 0), (''B'', 2)]" "0.1" "Some [(''A'', Some 41600)]" 2]
  by (simp add: series_get_def)

section \<open>Topography weighting\<close>

lemma series_get_normalize_01:
  "series_get (normalize_01 s) h 0 =
     (case map_of s h of
        None \<Rightarrow> 0
      | Some x \<Rightarrow> if Max (snd ` set s) > Min (snd ` set s)
                  then (x - Min (snd ` set s)) / (Max (snd ` set s) - Min (snd ` set s)) else 0)"
proof (cases "s \<noteq> [] \<and> series_max s > series_min s")
  case True
  then show ?thesis
    by (auto simp: normalize_01_def series_get_def map_of_map series_min_def series_max_def
        split: option.splits)
next
  case False
  have "s = [] \<Longrightarrow> map_of s h = None" by simp
  with False show ?thesis
    by (auto simp: normalize_01_def series_get_def map_of_map series_min_def series_max_def
        split: option.splits)
qed

text \<open>
  Claim C8. \<open>build_topo_weighted_graph\<close> keeps the nodes and every edge's endpoints, key
  and attributes, leaves an edge without \<open>time_min\<close> as it is, and gives every other
  edge \<open>(u, v)\<close> the time \<open>old_time_min * (1 + gamma * 0.5 * (mu + mv))\<close>. Here \<open>mu\<close>
  (and \<open>mv\<close> likewise) is 0 when \<open>node_to_hex\<close> does not map \<open>u\<close>, or maps it to a hex
  without a topography score, and otherwise the hex's score \<open>x\<close> normalized to
  \<open>(x - min) / (max - min)\<close> over all scores (0 when all scores are equal).
\<close>

theorem topo_weighted_edge_times:
  "(let mn = Min (snd ` set topo_hex);
        mx = Max (snd ` set topo_hex);
        m = (\<lambda>u. case map_of node_to_hex u of
                    None \<Rightarrow> 0
                  | Some h \<Rightarrow> (case map_of topo_hex h of
                                None \<Rightarrow> 0
                              | Some x \<Rightarrow> if mx > mn then (x - mn) / (mx - mn) else 0))
    in build_topo_weighted_graph G topo_hex node_to_hex g =
         G\<lparr>edges := map (\<lambda>e. case time_min e of
                                 None \<Rightarrow> e
                               | Some old_time_min \<Rightarrow>
                                   e\<lparr>time_min :=
                                       Some (old_time_min * (1 + g * 0.5 * (m (src e) + m (dst e))))\<rparr>)
                       (edges G)\<rparr>)"
  by (simp add: build_topo_weighted_graph_def Let_def topo_at_def series_get_normalize_01
      cong: option.case_cong)

theorem topo_weighted_edge_times_witness:
  "build_topo_weighted_graph
     \<lparr>nodes = [], edges = [\<lparr>src = 1, dst = 2, ekey = 0, time_min = Some 10, attrs = []\<rparr>,
                           \<lparr>src = 2, dst = 3, ekey = 0, time_min = None, attrs = []\<rparr>]\<rparr>
     [(''A'', 2), (''B'', 6)] [(1, ''B'')] 0.5
   = \<lparr>nodes = [], edges = [\<lparr>src = 1, dst = 2, ekey = 0, time_min = Some 12.5, attrs = []\<rparr>,
                           \<lparr>src = 2, dst = 3, ekey = 0, time_min = None, attrs = []\<rparr>]\<rparr>"
  using topo_weighted_edge_times [of "[(''A'', 2), (''B'', 6)]" "[(1, ''B'')]" "\<lparr>nodes = [], edges = [\<lparr>src = 1, dst = 2, ekey = 0, time_min = Some 10, attrs = []\<rparr>,
                           \<lparr>src = 2, dst = 3, ekey = 0, time_min = None, attrs = []\<rparr>]\<rparr>" "0.5"]
  by (simp add: Let_def)

section \<open>PCI and BCI\<close>

lemma normalize_minmax_bounds:
  assumes "0 \<le> scale" and "(h, v) \<in> set (normalize_minmax s scale)"
  shows "0 \<le> v \<and> v \<le> scale"
proof (cases "s \<noteq> [] \<and> series_max s > series_min s")
  case True
  with assms(2) obtain x where x: "(h, x) \<in> set s"
    and v: "v = (x - series_min s) / (series_max s - series_min s) * scale"
    by (auto simp: normalize_minmax_def)
  have xin: "x \<in> set (map snd s)" using x by force
  have lo: "series_min s \<le> x" unfolding series_min_def using xin by (intro Min_le) auto
  have hi: "x \<le> series_max s" unfolding series_max_def using xin by (intro Max_ge) auto
  have d: "0 < series_max s - series_min s" using True by simp
  define r where "r = (x - series_min s) / (series_max s - series_min s)"
  have "0 \<le> (x - series_min s) / (series_max s - series_min s)"
    using lo d by simp
  moreover have "(x - series_min s) / (series_max s - series_min s) \<le> 1"
    using hi d by simp
  ultimately have r: "0 \<le> r" "r \<le> 1" by (simp_all add: r_def)
  have "0 \<le> r * scale" using r(1) assms(1) by (rule mult_nonneg_nonneg)
  moreover have "r * scale \<le> 1 * scale" using r(2) assms(1) by (rule mult_right_mono)
  moreover have "v = r * scale" by (simp add: v r_def)
  ultimately show ?thesis by simp
next
  case False
  with assms show ?thesis by (auto simp: normalize_minmax_def)
qed

lemma normalize_minmax_constant:
  assumes "list_all (\<lambda>(h, x). list_all (\<lambda>(k, y). x = y) s) s"
  shows "normalize_minmax s scale = map (\<lambda>(h, x). (h, scale / 2)) s"
proof (cases "s = []")
  case True
  then show ?thesis by (simp add: normalize_minmax_def)
next
  case False
  have eq: "x = y" if "x \<in> set (map snd s)" "y \<in> set (map snd s)" for x y
    using assms that by (fastforce simp: list_all_iff)
  have "Max (set (map snd s)) \<in> set (map snd s)" "Min (set (map snd s)) \<in> set (map snd s)"
    using False by (auto intro!: Max_in Min_in)
  then have "series_max s = series_min s"
    unfolding series_max_def series_min_def by (rule eq)
  then show ?thesis by (simp add: normalize_minmax_def)
qed

lemma hansen_returns:
  "fb \<noteq> 0 \<Longrightarrow> \<exists>out. hansen_accessibility tts dm beta inc mc fb = Inr out"
  using hansen_loop_result[of fb tts dm beta inc mc "map fst dm" "series_const 0 (map fst dm)"]
  by (auto simp: hansen_accessibility_def Let_def)

lemma pci_mask_shape:
  assumes "(if me then (case po of
                None \<Rightarrow> Inr (map (\<lambda>(h, x). (h, Some x)) N)
              | Some pl \<Rightarrow>
                  bind_err (c pl)
                    (\<lambda>coverage. Inr (map (\<lambda>(h, x). (h, if series_get coverage h 0 > mt
                                                        then None else Some x)) N)))
            else Inr (map (\<lambda>(h, x). (h, Some x)) N)) = Inr (pci :: nan_series)"
  shows "\<exists>mask. pci = map (\<lambda>(h, x). (h, if mask h then None else Some x)) N"
proof -
  have nomask: "\<exists>mask. pci = map (\<lambda>(h, x). (h, if mask h then None else Some x)) N"
    if "pci = map (\<lambda>(h, x). (h, Some x)) N"
  proof (rule exI[of _ "\<lambda>h. False"])
    show "pci = map (\<lambda>(h, x). (h, if False then None else Some x)) N"
      using that by simp
  qed
  show ?thesis
  proof (cases me)
    case False
    with assms have "pci = map (\<lambda>(h, x). (h, Some x)) N" by simp
    then show ?thesis by (rule nomask)
  next
    case True
    show ?thesis
    proof (cases po)
      case None
      with True assms have "pci = map (\<lambda>(h, x). (h, Some x)) N" by simp
      then show ?thesis by (rule nomask)
    next
      case (Some pl)
      show ?thesis
      proof (cases "c pl")
        case (Inl e)
        with True Some assms show ?thesis by simp
      next
        case (Inr coverage)
        with True Some assms have
          "pci = map (\<lambda>(h, x). (h, if series_get coverage h 0 > mt then None else Some x)) N"
          by simp
        then show ?thesis by (rule exI[of _ "\<lambda>h. series_get coverage h 0 > mt"])
      qed
    qed
  qed
qed

lemma compute_pci_shape:
  assumes "compute_pci tts topo_mass lyrs bts inc mcost al me mt ha = Inr pci"
  shows "\<exists>pci_raw mask. pci = map (\<lambda>(h, x). (h, if mask h then None else Some x))
                                (normalize_minmax pci_raw 100)"
proof -
  obtain A where A: "hansen_accessibility tts topo_mass (dict_get bts ''pci'' 0.08) inc
      mcost DEFAULT_MEDIAN_HOURLY_WAGE = Inr A"
  proof (cases "hansen_accessibility tts topo_mass (dict_get bts ''pci'' 0.08) inc
      mcost DEFAULT_MEDIAN_HOURLY_WAGE")
    case (Inl e)
    have "compute_pci tts topo_mass lyrs bts inc mcost al me mt ha = Inl e"
      unfolding compute_pci_def Let_def by (simp only: Inl bind_err.simps)
    with assms show ?thesis by simp
  next
    case (Inr A)
    then show ?thesis using that by blast
  qed
  define pci_raw where "pci_raw = (\<lambda>A. map (\<lambda>(h, a). (h, a * (1 + al * series_get
      (compute_active_street_score (map fst topo_mass) lyrs [''food_retail'', ''community'']) h 0)))
      (normalize_minmax A 100))"
  define cov where "cov = (\<lambda>pl::MassLayer.
      if reindex_fill0 (raw pl) (map fst topo_mass) \<noteq> []
         \<and> series_max (reindex_fill0 (raw pl) (map fst topo_mass)) \<le> 1.5
      then Inr (reindex_fill0 (raw pl) (map fst topo_mass))
      else (case ha of None \<Rightarrow> Inl ValueError
            | Some ha \<Rightarrow> Inr (compute_park_coverage ha (reindex_fill0 (raw pl) (map fst topo_mass))
                                (map fst topo_mass))))"
  from assms[unfolded compute_pci_def Let_def] have
    "(if me then (case map_of lyrs ''parks'' of
                None \<Rightarrow> Inr (map (\<lambda>(h, x). (h, Some x)) (normalize_minmax (pci_raw A) 100))
              | Some pl \<Rightarrow>
                  bind_err (cov pl)
                    (\<lambda>coverage. Inr (map (\<lambda>(h, x). (h, if series_get coverage h 0 > mt
                                                        then None else Some x))
                                      (normalize_minmax (pci_raw A) 100))))
            else Inr (map (\<lambda>(h, x). (h, Some x)) (normalize_minmax (pci_raw A) 100))) = Inr pci"
    unfolding pci_raw_def cov_def by (simp only: A bind_err.simps)
  from pci_mask_shape[OF this] obtain mask where
    m: "pci = map (\<lambda>(h, x). (h, if mask h then None else Some x))
              (normalize_minmax (pci_raw A) 100)" by (elim exE)
  show ?thesis by (intro exI) (rule m)
qed


lemma bind_err_shape3:
  "bind_err m1 (\<lambda>a. bind_err (m2 a) (\<lambda>b'. bind_err (m3 a b') (\<lambda>r. Inr (F a b' r)))) = Inr y
   \<Longrightarrow> \<exists>a b' r. y = F a b' r"
  by (auto simp: bind_err_Inr_iff)

lemma bci_record_shape:
  assumes "\<exists>a b' r. b = \<lparr>A_market = a, A_labour = b', BCI = normalize_minmax (G r) 100\<rparr>"
  shows "\<exists>bci_raw. BCI b = normalize_minmax bci_raw 100"
proof -
  from assms obtain a b' r where
    "b = \<lparr>A_market = a, A_labour = b', BCI = normalize_minmax (G r) 100\<rparr>" by blast
  then have "BCI b = normalize_minmax (G r) 100" by simp
  then show ?thesis by (rule exI)
qed

lemma compute_bci_shape:
  assumes "compute_bci tts pop inc lab bts wts combine iface il = Inr b"
  shows "\<exists>bci_raw. BCI b = normalize_minmax bci_raw 100"
  by (rule bci_record_shape[OF bind_err_shape3[OF assms[unfolded compute_bci_def Let_def]]])

lemma bci_combine_returns:
  assumes "combine = ''weight_free'' \<or> combine = ''weighted_sum''"
  shows "\<exists>b. bind_err (if combine = ''weight_free'' then Inr X
                        else if combine = ''weighted_sum'' then Inr Y else Inl e)
                (\<lambda>r. Inr (F r)) = Inr b"
  using assms by auto

lemma compute_bci_returns:
  assumes "combine = ''weight_free'' \<or> combine = ''weighted_sum''"
  shows "\<exists>b. compute_bci tts pop inc lab bts wts combine iface il = Inr b"
proof -
  have fb: "DEFAULT_MEDIAN_HOURLY_WAGE \<noteq> 0" by (simp add: DEFAULT_MEDIAN_HOURLY_WAGE_def)
  obtain Am where Am: "hansen_accessibility tts
      (fst (compute_bci_masses pop inc lab (map fst pop))) (dict_get bts ''market'' 0.08) None 0
      DEFAULT_MEDIAN_HOURLY_WAGE = Inr Am" using hansen_returns[OF fb] by blast
  obtain Al where Al: "hansen_accessibility tts
      (snd (compute_bci_masses pop inc lab (map fst pop))) (dict_get bts ''labour'' 0.08) None 0
      DEFAULT_MEDIAN_HOURLY_WAGE = Inr Al" using hansen_returns[OF fb] by blast
  show ?thesis
    unfolding compute_bci_def Let_def
    apply (simp only: Am Al bind_err.simps)
    apply (rule bci_combine_returns[OF assms])
    done
qed


lemma hansen_example_two_hexes:
  "hansen_accessibility [(''A'', [(''A'', 0)]), (''B'', [(''A'', 0), (''B'', 0)])]
     [(''A'', 1), (''B'', 2)] beta None 0 fb
   = Inr [(''A'', 1), (''B'', 3)]"
  by (simp add: hansen_accessibility_def origin_penalty_def row_total_def series_get_def
      series_const_def set_label_def)

lemma normalize_minmax_example:
  "normalize_minmax [(''A'', 1), (''B'', 3)] 100 = [(''A'', 0), (''B'', 100)]"
  "normalize_minmax [(''A'', 0), (''B'', 245 / 2)] 100 = [(''A'', 0), (''B'', 100)]"
  "normalize_minmax [(''A'', 1), (''B'', 2)] 100 = [(''A'', 0), (''B'', 100)]"
  by (simp_all add: normalize_minmax_def series_min_def series_max_def)

lemma compute_pci_example:
  "compute_pci [(''A'', [(''A'', 0)]), (''B'', [(''A'', 0), (''B'', 0)])]
     [(''A'', 1), (''B'', 2)] [] [] None 0 0.3 True 0.9 None
   = Inr [(''A'', Some 0), (''B'', Some 100)]"
  by (simp add: compute_pci_def dict_get_def hansen_example_two_hexes normalize_minmax_example
      compute_active_street_score_def series_const_def rank_pct_def series_get_def)


lemma hansen_example_bci:
  "hansen_accessibility [(''A'', [(''A'', 0)]), (''B'', [(''A'', 0), (''B'', 0)])]
     [(''A'', 1), (''B'', 0)] beta None 0 fb = Inr [(''A'', 1), (''B'', 1)]"
  "hansen_accessibility [(''A'', [(''A'', 0)]), (''B'', [(''A'', 0), (''B'', 0)])]
     [(''A'', 0), (''B'', 4)] beta None 0 fb = Inr [(''A'', 0), (''B'', 4)]"
  by (simp_all add: hansen_accessibility_def origin_penalty_def row_total_def series_get_def
      series_const_def set_label_def)

lemma compute_bci_example:
  "compute_bci [(''A'', [(''A'', 0)]), (''B'', [(''A'', 0), (''B'', 0)])]
     [(''A'', Some 1), (''B'', Some 2)] [(''A'', Some 1), (''B'', None)]
     [(''A'', Some 0), (''B'', Some 4)] [] None ''weight_free'' None 0
   = Inr \<lparr>A_market = [(''A'', 1), (''B'', 1)], A_labour = [(''A'', 0), (''B'', 4)],
          BCI = [(''A'', 0), (''B'', 100)]\<rparr>"
  by (simp add: compute_bci_def compute_bci_masses_def nan_fill0_def nan_reindex_def nan_get_def
      series_zip_def series_get_def dict_get_def hansen_example_bci normalize_div_max_def
      series_max_def normalize_minmax_example)


lemma list_all_normalize_minmax:
  "list_all (\<lambda>(h, x). 0 \<le> x \<and> x \<le> 100) (normalize_minmax s 100)"
  unfolding list_all_iff using normalize_minmax_bounds[of 100 _ _ s] by auto

text \<open>
  Claim C9. Whenever \<open>compute_pci\<close> returns, every entry of its output that is not masked
  lies in \<open>[0, 100]\<close>, and whenever \<open>compute_bci\<close> returns, every entry of its BCI
  does; \<open>compute_bci\<close> returns for both combine modes. Each output is the result of a
  final \<open>normalize_minmax\<close> with scale 100 (masked afterwards, for the PCI), and
  \<open>normalize_minmax\<close> of a series whose values are all equal is the constant
  \<open>scale / 2\<close> at every hex: 50 for these two indices.
\<close>

theorem index_outputs_bounded:
  "(compute_pci tts topo_mass lyrs bts inc mcost al me mt ha = Inr pci \<longrightarrow>
      list_all (\<lambda>(h, v). case v of None \<Rightarrow> True | Some x \<Rightarrow> 0 \<le> x \<and> x \<le> 100) pci
      \<and> (\<exists>pci_raw mask. pci = map (\<lambda>(h, x). (h, if mask h then None else Some x))
                                  (normalize_minmax pci_raw 100)))
   \<and> (compute_bci tts pop inc' lab bts wts combine iface il = Inr b \<longrightarrow>
      list_all (\<lambda>(h, x). 0 \<le> x \<and> x \<le> 100) (BCI b)
      \<and> (\<exists>bci_raw. BCI b = normalize_minmax bci_raw 100))
   \<and> (combine = ''weight_free'' \<or> combine = ''weighted_sum'' \<longrightarrow>
        (\<exists>b'. compute_bci tts pop inc' lab bts wts combine iface il = Inr b'))
   \<and> (list_all (\<lambda>(h, x). list_all (\<lambda>(k, y). x = y) s) s \<longrightarrow>
        normalize_minmax s scale = map (\<lambda>(h, x). (h, scale / 2)) s)"
proof (intro conjI impI)
  assume a: "compute_pci tts topo_mass lyrs bts inc mcost al me mt ha = Inr pci"
  from compute_pci_shape[OF a] obtain pci_raw mask where
    p: "pci = map (\<lambda>(h, x). (h, if mask h then None else Some x)) (normalize_minmax pci_raw 100)"
    by (elim exE)
  show "\<exists>pci_raw mask. pci = map (\<lambda>(h, x). (h, if mask h then None else Some x))
                                  (normalize_minmax pci_raw 100)"
    by (rule compute_pci_shape[OF a])
  have "list_all (\<lambda>(h, x). 0 \<le> x \<and> x \<le> 100) (normalize_minmax pci_raw 100)"
    by (rule list_all_normalize_minmax)
  then show "list_all (\<lambda>(h, v). case v of None \<Rightarrow> True | Some x \<Rightarrow> 0 \<le> x \<and> x \<le> 100) pci"
    unfolding p list_all_iff by auto
next
  assume a: "compute_bci tts pop inc' lab bts wts combine iface il = Inr b"
  from compute_bci_shape[OF a] obtain bci_raw where r: "BCI b = normalize_minmax bci_raw 100"
    by (elim exE)
  show "\<exists>bci_raw. BCI b = normalize_minmax bci_raw 100" by (rule compute_bci_shape[OF a])
  show "list_all (\<lambda>(h, x). 0 \<le> x \<and> x \<le> 100) (BCI b)"
    unfolding r by (rule list_all_normalize_minmax)
next
  assume "combine = ''weight_free'' \<or> combine = ''weighted_sum''"
  then show "\<exists>b'. compute_bci tts pop inc' lab bts wts combine iface il = Inr b'"
    by (rule compute_bci_returns)
next
  assume "list_all (\<lambda>(h, x). list_all (\<lambda>(k, y). x = y) s) s"
  then show "normalize_minmax s scale = map (\<lambda>(h, x). (h, scale / 2)) s"
    by (rule normalize_minmax_constant)
qed

theorem index_outputs_bounded_witness:
  "list_all (\<lambda>(h, v). case v of None \<Rightarrow> True | Some x \<Rightarrow> 0 \<le> x \<and> x \<le> 100)
     [(''A'', Some 0), (''B'', Some (100::real))]
   \<and> list_all (\<lambda>(h, x). 0 \<le> x \<and> x \<le> 100)
       (BCI \<lparr>A_market = [(''A'', 1), (''B'', 1)], A_labour = [(''A'', 0), (''B'', 4)],
             BCI = [(''A'', 0), (''B'', 100)]\<rparr>)
   \<and> (\<exists>b'. compute_bci [(''A'', [(''A'', 0)]), (''B'', [(''A'', 0), (''B'', 0)])]
          [(''A'', Some 1), (''B'', Some 2)] [(''A'', Some 1), (''B'', None)]
          [(''A'', Some 0), (''B'', Some 4)] [] None ''weight_free'' None 0 = Inr b')
   \<and> normalize_minmax [(''A'', 3), (''B'', 3)] 100 = [(''A'', 50), (''B'', 50)]"
  using index_outputs_bounded [where tts = "[(''A'', [(''A'', 0)]), (''B'', [(''A'', 0), (''B'', 0)])]"
      and topo_mass = "[(''A'', 1), (''B'', 2)]" and lyrs = "[]" and bts = "[]" and inc = None
      and mcost = 0 and al = "0.3" and me = True and mt = "0.9" and ha = None
      and pci = "[(''A'', Some 0), (''B'', Some 100)]"
      and pop = "[(''A'', Some 1), (''B'', Some 2)]" and inc' = "[(''A'', Some 1), (''B'', None)]"
      and lab = "[(''A'', Some 0), (''B'', Some 4)]" and wts = None and combine = "''weight_free''"
      and iface = None and il = 0
      and b = "\<lparr>A_market = [(''A'', 1), (''B'', 1)], A_labour = [(''A'', 0), (''B'', 4)],
                 BCI = [(''A'', 0), (''B'', 100)]\<rparr>"
      and s = "[(''A'', 3), (''B'', 3)]" and scale = 100]
  by (simp add: compute_pci_example compute_bci_example)

section \<open>Travel times\<close>

lemma map_of_setdefault_append:
  "map_of (setdefault_append acc n h) n' =
     (if n' = n then Some ((case map_of acc n of None \<Rightarrow> [] | Some hs \<Rightarrow> hs) @ [h])
      else map_of acc n')"
  by (auto simp: setdefault_append_def update_conv' map_add_def split: option.splits)

lemma distinct_setdefault_append:
  "distinct (map fst acc) \<Longrightarrow> distinct (map fst (setdefault_append acc n h))"
  by (auto simp: setdefault_append_def distinct_update map_of_eq_None_iff split: option.splits)

lemma fold_setdefault_append:
  "map_of (fold (\<lambda>(h, n) acc. setdefault_append acc n h) xs acc) n =
     (case map_of acc n of
        None \<Rightarrow> (if hexes_of xs n = [] then None else Some (hexes_of xs n))
      | Some hs \<Rightarrow> Some (hs @ hexes_of xs n))"
proof (induction xs arbitrary: acc)
  case Nil
  then show ?case by (simp add: hexes_of_def split: option.splits)
next
  case (Cons x xs)
  obtain h m where x: "x = (h, m)" by (cases x)
  show ?case
    unfolding x by (simp add: Cons.IH map_of_setdefault_append hexes_of_def split: option.splits)
qed

lemma distinct_fold_setdefault_append:
  "distinct (map fst acc) \<Longrightarrow>
   distinct (map fst (fold (\<lambda>(h, n) acc. setdefault_append acc n h) xs acc))"
proof (induction xs arbitrary: acc)
  case Nil
  then show ?case by simp
next
  case (Cons x xs)
  obtain h m where x: "x = (h, m)" by (cases x)
  show ?case unfolding x using Cons.prems
    by (simp add: Cons.IH distinct_setdefault_append)
qed

lemma map_of_node_to_hexes:
  "map_of (node_to_hexes xs) n = (if hexes_of xs n = [] then None else Some (hexes_of xs n))"
  by (simp add: node_to_hexes_def fold_setdefault_append)

lemma distinct_unique_nodes: "distinct (unique_nodes xs)"
  by (simp add: unique_nodes_def node_to_hexes_def distinct_fold_setdefault_append)

lemma hexes_of_empty_iff: "hexes_of xs n = [] \<longleftrightarrow> n \<notin> snd ` set xs"
  by (induction xs) (auto simp: hexes_of_def)

lemma set_unique_nodes: "set (unique_nodes xs) = snd ` set xs"
proof -
  have "n \<in> set (unique_nodes xs) \<longleftrightarrow> n \<in> snd ` set xs" for n
  proof -
    have "n \<in> set (unique_nodes xs) \<longleftrightarrow> map_of (node_to_hexes xs) n \<noteq> None"
      by (simp add: unique_nodes_def map_of_eq_None_iff)
    then show ?thesis by (simp add: map_of_node_to_hexes hexes_of_empty_iff)
  qed
  then show ?thesis by blast
qed

lemma fold_update_row:
  "map_of (fold (\<lambda>origin_hex acc. AList.update origin_hex v acc) hs tt) h =
     (if h \<in> set hs then Some v else map_of tt h)"
  by (induction hs arbitrary: tt) (auto simp: update_conv')

lemma fold_sources:
  assumes "\<And>n. n \<in> set ns \<Longrightarrow> (h \<in> set (grp n) \<longleftrightarrow> n = nh)"
  shows "map_of (fold (\<lambda>source_node tt.
             case srch source_node of
               Inl ex \<Rightarrow> tt
             | Inr lengths \<Rightarrow>
                 fold (\<lambda>origin_hex acc. AList.update origin_hex (row lengths) acc)
                   (grp source_node) tt) ns tt) h
        = (if nh \<in> set ns then (case srch nh of Inl ex \<Rightarrow> map_of tt h
                                 | Inr lengths \<Rightarrow> Some (row lengths))
           else map_of tt h)"
  using assms
proof (induction ns arbitrary: tt)
  case Nil
  then show ?case by simp
next
  case (Cons n ns)
  have IH: "\<And>tt. map_of (fold (\<lambda>source_node tt.
             case srch source_node of
               Inl ex \<Rightarrow> tt
             | Inr lengths \<Rightarrow>
                 fold (\<lambda>origin_hex acc. AList.update origin_hex (row lengths) acc)
                   (grp source_node) tt) ns tt) h
        = (if nh \<in> set ns then (case srch nh of Inl ex \<Rightarrow> map_of tt h
                                 | Inr lengths \<Rightarrow> Some (row lengths))
           else map_of tt h)"
    using Cons.IH Cons.prems by simp
  have n: "h \<in> set (grp n) \<longleftrightarrow> n = nh" using Cons.prems by simp
  show ?case
  proof (cases "srch n")
    case (Inl ex)
    then show ?thesis using n by (simp add: IH)
  next
    case (Inr lengths)
    then show ?thesis using n by (auto simp: IH fold_update_row split: sum.splits)
  qed
qed


lemma set_hexes_of: "set (hexes_of xs n) = {h. (h, n) \<in> set xs}"
  by (force simp: hexes_of_def)

lemma travel_time_row:
  assumes "distinct (map fst hex_to_node)" and "map_of hex_to_node h = Some nh"
  shows "map_of (compute_hex_travel_times sssp G hex_to_node max_time weight) h =
           (case sssp G nh max_time weight of
              Inl ex \<Rightarrow> None
            | Inr lengths \<Rightarrow> Some (od_row hex_to_node lengths))"
proof -
  define grp where "grp = (\<lambda>n. case map_of (node_to_hexes hex_to_node) n of
                                 None \<Rightarrow> [] | Some hs \<Rightarrow> hs)"
  have grp: "grp n = hexes_of hex_to_node n" for n
    by (simp add: grp_def map_of_node_to_hexes)
  have mem: "h \<in> set (grp n) \<longleftrightarrow> n = nh" for n
  proof
    assume "h \<in> set (grp n)"
    then have "(h, n) \<in> set hex_to_node" by (simp add: grp set_hexes_of)
    with assms(1) have "map_of hex_to_node h = Some n" by (rule map_of_is_SomeI)
    with assms(2) show "n = nh" by simp
  next
    assume "n = nh"
    then show "h \<in> set (grp n)"
      using map_of_SomeD[OF assms(2)] by (simp add: grp set_hexes_of)
  qed
  have "(h, nh) \<in> set hex_to_node" using assms(2) by (rule map_of_SomeD)
  then have "nh \<in> snd ` set hex_to_node" by force
  then have nh: "nh \<in> set (unique_nodes hex_to_node)" by (simp add: set_unique_nodes)
  have "map_of (compute_hex_travel_times sssp G hex_to_node max_time weight) h
      = map_of (fold (\<lambda>source_node tt.
             case sssp G source_node max_time weight of
               Inl ex \<Rightarrow> tt
             | Inr lengths \<Rightarrow>
                 fold (\<lambda>origin_hex acc. AList.update origin_hex (od_row hex_to_node lengths) acc)
                   (grp source_node) tt) (unique_nodes hex_to_node) []) h"
    unfolding compute_hex_travel_times_def grp_def by (rule refl)
  also have "\<dots> = (if nh \<in> set (unique_nodes hex_to_node)
                    then (case sssp G nh max_time weight of Inl ex \<Rightarrow> map_of [] h
                          | Inr lengths \<Rightarrow> Some (od_row hex_to_node lengths))
                    else map_of [] h)"
    by (rule fold_sources[where srch = "\<lambda>n. sssp G n max_time weight"
          and row = "od_row hex_to_node"]) (rule mem)
  finally show ?thesis using nh by (simp split: sum.splits)
qed

text \<open>
  Claim C7. \<open>compute_hex_travel_times\<close> runs the search once for each node of
  \<open>unique_nodes\<close>, a list without repetition of exactly the nodes that
  \<open>hex_to_node\<close> maps some hex to: as many searches as distinct representative
  nodes, each with the cutoff \<open>max_time\<close>. Two hexes mapped to the same node get equal
  rows in the result: no row when the search from that node fails, and otherwise the
  row that gives each destination hex the distance of its own node, when the search
  reached it.
\<close>

theorem travel_time_rows_by_node:
  "distinct (map fst hex_to_node) \<longrightarrow>
     distinct (unique_nodes hex_to_node)
     \<and> set (unique_nodes hex_to_node) = snd ` set hex_to_node
     \<and> length (unique_nodes hex_to_node) = card (snd ` set hex_to_node)
     \<and> (map_of hex_to_node ha = Some n \<and> map_of hex_to_node hb = Some n \<longrightarrow>
          map_of (compute_hex_travel_times sssp G hex_to_node max_time weight) ha
            = map_of (compute_hex_travel_times sssp G hex_to_node max_time weight) hb
          \<and> (case sssp G n max_time weight of
                Inl ex \<Rightarrow>
                  map_of (compute_hex_travel_times sssp G hex_to_node max_time weight) ha = None
              | Inr lengths \<Rightarrow>
                  map_of (compute_hex_travel_times sssp G hex_to_node max_time weight) ha
                    = Some (od_row hex_to_node lengths)))"
proof (intro impI conjI)
  show "distinct (unique_nodes hex_to_node)" by (rule distinct_unique_nodes)
  show "set (unique_nodes hex_to_node) = snd ` set hex_to_node" by (rule set_unique_nodes)
  show "length (unique_nodes hex_to_node) = card (snd ` set hex_to_node)"
    using distinct_card[OF distinct_unique_nodes, of hex_to_node] by (simp add: set_unique_nodes)
next
  assume d: "distinct (map fst hex_to_node)"
    and h: "map_of hex_to_node ha = Some n \<and> map_of hex_to_node hb = Some n"
  show "map_of (compute_hex_travel_times sssp G hex_to_node max_time weight) ha
            = map_of (compute_hex_travel_times sssp G hex_to_node max_time weight) hb"
    using h by (simp add: travel_time_row[OF d])
  show "case sssp G n max_time weight of
                Inl ex \<Rightarrow>
                  map_of (compute_hex_travel_times sssp G hex_to_node max_time weight) ha = None
              | Inr lengths \<Rightarrow>
                  map_of (compute_hex_travel_times sssp G hex_to_node max_time weight) ha
                    = Some (od_row hex_to_node lengths)"
    using h by (simp add: travel_time_row[OF d] split: sum.splits)
qed

lemma travel_times_example:
  "compute_hex_travel_times
     (\<lambda>G s cutoff w. if s = 1 then Inr [1 \<mapsto> 0, 2 \<mapsto> 5] else Inl KeyError) ()
     [(''A'', 1), (''B'', 1), (''C'', 2)] 60 ''time_min''
   = [(''A'', [(''A'', 0), (''B'', 0), (''C'', 5)]), (''B'', [(''A'', 0), (''B'', 0), (''C'', 5)])]"
  by (simp add: compute_hex_travel_times_def unique_nodes_def node_to_hexes_def
      setdefault_append_def od_row_def List.map_filter_def)

theorem travel_time_rows_by_node_witness:
  "map_of (compute_hex_travel_times
       (\<lambda>G s cutoff w. if s = 1 then Inr [1 \<mapsto> 0, 2 \<mapsto> 5] else Inl KeyError) ()
       [(''A'', 1), (''B'', 1), (''C'', 2)] 60 ''time_min'') ''A''
     = map_of (compute_hex_travel_times
       (\<lambda>G s cutoff w. if s = 1 then Inr [1 \<mapsto> 0, 2 \<mapsto> 5] else Inl KeyError) ()
       [(''A'', 1), (''B'', 1), (''C'', 2)] 60 ''time_min'') ''B''
   \<and> map_of (compute_hex_travel_times
       (\<lambda>G s cutoff w. if s = 1 then Inr [1 \<mapsto> 0, 2 \<mapsto> 5] else Inl KeyError) ()
       [(''A'', 1), (''B'', 1), (''C'', 2)] 60 ''time_min'') ''C'' = None
   \<and> unique_nodes [(''A'', 1), (''B'', 1), (''C'', 2)] = [1, 2]"
  using travel_time_rows_by_node [where hex_to_node = "[(''A'', 1), (''B'', 1), (''C'', 2)]" and ha = "''A''"
      and hb = "''B''" and n = 1 and G = "()" and max_time = 60 and weight = "''time_min''"
      and sssp = "\<lambda>G s cutoff w. if s = 1 then Inr [1 \<mapsto> 0, 2 \<mapsto> 5] else Inl KeyError"]
    travel_time_rows_by_node [where hex_to_node = "[(''A'', 1), (''B'', 1), (''C'', 2)]" and ha = "''C''"
      and hb = "''C''" and n = 2 and G = "()" and max_time = 60 and weight = "''time_min''"
      and sssp = "\<lambda>G s cutoff w. if s = 1 then Inr [1 \<mapsto> 0, 2 \<mapsto> 5] else Inl KeyError"]
  by (simp add: unique_nodes_def node_to_hexes_def setdefault_append_def)

end
